theory Spec2Isabelle
  imports Complex_Main
begin

section \<open>Python values\<close>

text \<open>
  A Python \<open>str\<close> is a sequence of Unicode code points, modelled as a list of naturals.
  \<open>lit\<close> turns an ASCII literal of the source into such a list.
\<close>

type_synonym pystr = "nat list"

definition lit :: "string \<Rightarrow> pystr" where
  "lit s = map of_char s"

text \<open>
  The values \<open>response.json()\<close> can return. A JSON object is the list of its items;
  \<open>JFloat\<close> stands for the finite doubles.
\<close>

datatype json =
    JNull
  | JBool bool
  | JInt int
  | JFloat real
  | JStr pystr
  | JArr "json list"
  | JObj "(pystr \<times> json) list"

text \<open>
  The exceptions the modelled code can meet. \<open>TransportError\<close> stands for every failure
  of the transport (refused connection, timeout, DNS), with the text of \<open>str(e)\<close>;
  \<open>HTTPError\<close> is what \<open>raise_for_status\<close> raises; \<open>JSONDecodeError\<close> is what
  \<open>response.json()\<close> raises on a body that is not JSON. These three are subclasses of
  \<open>requests.exceptions.RequestException\<close> (requests 2.31, the version app.py names);
  the others are not.
\<close>

datatype exn =
    TransportError pystr
  | HTTPError int
  | JSONDecodeError
  | AttributeError
  | KeyError pystr
  | TypeError
  | ReError

fun is_RequestException :: "exn \<Rightarrow> bool" where
  "is_RequestException (TransportError m) = True"
| "is_RequestException (HTTPError c) = True"
| "is_RequestException JSONDecodeError = True"
| "is_RequestException e = False"

text \<open>The parts of the pages that the script has pandas, plotly and streamlit draw.\<close>

datatype part =
    Status_chart
  | Efficiency_chart
  | Recent_shipments
  | Shipments_table
  | Customers_table
  | Customer_details
  | Parcels_table

text \<open>
  What the source takes from the interpreter and its libraries and does not itself
  determine: the Unicode tables, the regular-expression engine, the comparison of
  containers and the drawing libraries.
  \<^item> \<open>lower_u s i\<close>: what \<open>str.lower\<close> writes for the non-ASCII code point at index \<open>i\<close>
    of \<open>s\<close> (one code point can become several, and capital sigma depends on its context);
  \<^item> \<open>str_u v\<close>: \<open>str(v)\<close> for a float, a list or an object;
  \<^item> \<open>ci_u c d\<close>: whether \<open>re.IGNORECASE\<close> lets the pattern character \<open>c\<close> match \<open>d\<close>
    when one of them is not ASCII;
  \<^item> \<open>re_u pat\<close>: \<open>re.compile(pat, re.IGNORECASE)\<close> for a pattern that uses regular-expression
    syntax other than the dot: an error, or the search predicate of the compiled pattern;
  \<^item> \<open>eq_u x y\<close>: \<open>x == y\<close> for two lists or two objects;
  \<^item> \<open>draw_u p d\<close>: the exception that pandas, plotly or streamlit raise when the script
    has them draw the part \<open>p\<close> of a page from the data \<open>d\<close>, if they raise one.
\<close>

record runtime =
  lower_u :: "pystr \<Rightarrow> nat \<Rightarrow> pystr"
  str_u :: "json \<Rightarrow> pystr"
  ci_u :: "nat \<Rightarrow> nat \<Rightarrow> bool"
  re_u :: "pystr \<Rightarrow> exn + (pystr \<Rightarrow> bool)"
  eq_u :: "json \<Rightarrow> json \<Rightarrow> bool"
  draw_u :: "part \<Rightarrow> json \<Rightarrow> exn option"

text \<open>
  A runtime for evaluating the model on concrete inputs. The inputs evaluated below are
  ASCII strings, patterns of ordinary characters and dots, and identifiers that are
  numbers or strings, for which the model consults none of the first five; its libraries
  draw whatever they are given.
\<close>

definition rt0 :: runtime where
  "rt0 = \<lparr> lower_u = (\<lambda>s i. [s ! i]), str_u = (\<lambda>v. []), ci_u = (\<lambda>c d. c = d),
           re_u = (\<lambda>pat. Inl ReError), eq_u = (\<lambda>x y. x = y), draw_u = (\<lambda>p d. None) \<rparr>"

subsection \<open>\<open>str.lower\<close>, \<open>str\<close>, \<open>in\<close>, truth value\<close>

definition ascii_lower :: "nat \<Rightarrow> nat" where
  "ascii_lower c = (if 65 \<le> c \<and> c \<le> 90 then c + 32 else c)"

fun lower_from :: "runtime \<Rightarrow> pystr \<Rightarrow> nat \<Rightarrow> pystr \<Rightarrow> pystr" where
  "lower_from rt s i [] = []"
| "lower_from rt s i (c # cs) =
     (if c < 128 then [ascii_lower c] else lower_u rt s i) @ lower_from rt s (Suc i) cs"

definition lower :: "runtime \<Rightarrow> pystr \<Rightarrow> pystr" where
  "lower rt s = lower_from rt s 0 s"

text \<open>The decimal digits of a number, and \<open>str(v)\<close>.\<close>

fun dec :: "nat \<Rightarrow> pystr" where
  "dec n = (if n < 10 then [48 + n] else dec (n div 10) @ [48 + n mod 10])"

declare dec.simps [simp del]

fun py_str :: "runtime \<Rightarrow> json \<Rightarrow> pystr" where
  "py_str rt (JStr s) = s"
| "py_str rt JNull = lit ''None''"
| "py_str rt (JBool b) = (if b then lit ''True'' else lit ''False'')"
| "py_str rt (JInt n) = (if n < 0 then 45 # dec (nat (- n)) else dec (nat n))"
| "py_str rt v = str_u rt v"

fun startswith :: "pystr \<Rightarrow> pystr \<Rightarrow> bool" where
  "startswith s [] = True"
| "startswith [] (p # ps) = False"
| "startswith (c # cs) (p # ps) = (c = p \<and> startswith cs ps)"

text \<open>\<open>sub in s\<close> on two strings.\<close>

fun py_in :: "pystr \<Rightarrow> pystr \<Rightarrow> bool" where
  "py_in sub [] = (sub = [])"
| "py_in sub (c # cs) = (startswith (c # cs) sub \<or> py_in sub cs)"

text \<open>The truth value of a value under \<open>if\<close>.\<close>

fun truthy :: "json \<Rightarrow> bool" where
  "truthy JNull = False"
| "truthy (JBool b) = b"
| "truthy (JInt n) = (n \<noteq> 0)"
| "truthy (JFloat x) = (x \<noteq> 0)"
| "truthy (JStr s) = (s \<noteq> [])"
| "truthy (JArr xs) = (xs \<noteq> [])"
| "truthy (JObj kv) = (kv \<noteq> [])"

text \<open>\<open>v[k]\<close> with a string key, and \<open>v.get(k, d)\<close>.\<close>

fun subscript :: "json \<Rightarrow> pystr \<Rightarrow> exn + json" where
  "subscript (JObj kv) k = (case map_of kv k of None \<Rightarrow> Inl (KeyError k) | Some v \<Rightarrow> Inr v)"
| "subscript v k = Inl TypeError"

fun dict_get :: "json \<Rightarrow> pystr \<Rightarrow> json \<Rightarrow> exn + json" where
  "dict_get (JObj kv) k d = Inr (case map_of kv k of None \<Rightarrow> d | Some v \<Rightarrow> v)"
| "dict_get v k d = Inl AttributeError"

text \<open>
  \<open>x == y\<close>. Numbers and booleans compare by value, whatever their types; a number is
  never equal to a string, to \<open>None\<close> or to a container.
\<close>

fun num_of :: "json \<Rightarrow> real option" where
  "num_of (JBool b) = Some (if b then 1 else 0)"
| "num_of (JInt n) = Some (of_int n)"
| "num_of (JFloat x) = Some x"
| "num_of v = None"

fun py_eq :: "runtime \<Rightarrow> json \<Rightarrow> json \<Rightarrow> bool" where
  "py_eq rt JNull JNull = True"
| "py_eq rt (JStr s) (JStr t) = (s = t)"
| "py_eq rt (JArr xs) (JArr ys) = eq_u rt (JArr xs) (JArr ys)"
| "py_eq rt (JObj kv) (JObj kw) = eq_u rt (JObj kv) (JObj kw)"
| "py_eq rt x y = (case (num_of x, num_of y) of (Some p, Some q) \<Rightarrow> p = q | _ \<Rightarrow> False)"

text \<open>
  \<open>for s in v\<close>: the elements of a list, the keys of an object, the characters of a
  string; nothing else can be iterated.
\<close>

fun iterate :: "json \<Rightarrow> exn + json list" where
  "iterate (JArr xs) = Inr xs"
| "iterate (JObj kv) = Inr (map (\<lambda>(k, v). JStr k) kv)"
| "iterate (JStr s) = Inr (map (\<lambda>c. JStr [c]) s)"
| "iterate v = Inl TypeError"

section \<open>app.py: the status class of the Parcel Tracking tab\<close>

text \<open>
  The three presentation categories are the three CSS class names the source assigns.
\<close>

definition Delivered :: pystr where
  "Delivered = lit ''status-delivered''"

definition InTransit :: pystr where
  "InTransit = lit ''status-transit''"

definition Processing :: pystr where
  "Processing = lit ''status-processing''"

text \<open>
  Lines 113--119. The argument is the value of \<open>parcel["Status"]\<close>. The first test goes
  through \<open>str(...)\<close>, the second calls \<open>.lower()\<close> on the value itself, which only a
  \<open>str\<close> has.
\<close>

definition status_class :: "runtime \<Rightarrow> json \<Rightarrow> exn + pystr" where
  "status_class rt status =
     (if lower rt (py_str rt status) = lit ''delivered'' then Inr Delivered
      else (case status of
              JStr s \<Rightarrow> (if py_in (lit ''transit'') (lower rt s) then Inr InTransit
                         else Inr Processing)
            | _ \<Rightarrow> Inl AttributeError))"

section \<open>dhl_logistics_app.py: the search filters of the table views\<close>

subsection \<open>\<open>Series.str.contains(pat, case=False)\<close>\<close>

text \<open>
  pandas reads \<open>pat\<close> as a regular expression (\<open>regex=True\<close> is the default the source
  leaves in place), compiles it with \<open>re.IGNORECASE\<close> and tells for each value of the
  column whether \<open>search\<close> finds a match; for a missing value (a JSON null) the answer
  is itself missing (NaN). The syntax is modelled for the patterns made of ordinary
  characters and dots; every other pattern goes to \<open>re_u\<close>.
\<close>

definition is_meta :: "nat \<Rightarrow> bool" where
  "is_meta c = (c \<in> set (lit ''.^$*+?{}[]|()'') \<or> c = 92)"

datatype atom = AnyChar | Chr nat

fun parse_atoms :: "pystr \<Rightarrow> atom list option" where
  "parse_atoms [] = Some []"
| "parse_atoms (c # cs) =
     (if c = 46 then map_option ((#) AnyChar) (parse_atoms cs)
      else if is_meta c then None
      else map_option ((#) (Chr c)) (parse_atoms cs))"

definition ci_eq :: "runtime \<Rightarrow> nat \<Rightarrow> nat \<Rightarrow> bool" where
  "ci_eq rt c d = (if c < 128 \<and> d < 128 then ascii_lower c = ascii_lower d else ci_u rt c d)"

fun atom_match :: "runtime \<Rightarrow> atom \<Rightarrow> nat \<Rightarrow> bool" where
  "atom_match rt AnyChar d = (d \<noteq> 10)"
| "atom_match rt (Chr c) d = ci_eq rt c d"

fun match_here :: "runtime \<Rightarrow> atom list \<Rightarrow> pystr \<Rightarrow> bool" where
  "match_here rt [] s = True"
| "match_here rt (a # as) [] = False"
| "match_here rt (a # as) (d # ds) = (atom_match rt a d \<and> match_here rt as ds)"

fun re_search :: "runtime \<Rightarrow> atom list \<Rightarrow> pystr \<Rightarrow> bool" where
  "re_search rt as [] = match_here rt as []"
| "re_search rt as (d # ds) = (match_here rt as (d # ds) \<or> re_search rt as ds)"

definition re_compile :: "runtime \<Rightarrow> pystr \<Rightarrow> exn + (pystr \<Rightarrow> bool)" where
  "re_compile rt pat =
     (case parse_atoms pat of Some as \<Rightarrow> Inr (re_search rt as) | None \<Rightarrow> re_u rt pat)"

definition str_contains ::
  "runtime \<Rightarrow> pystr \<Rightarrow> pystr option list \<Rightarrow> exn + bool option list" where
  "str_contains rt pat col =
     (case re_compile rt pat of
        Inl e \<Rightarrow> Inl e
      | Inr found \<Rightarrow> Inr (map (map_option found) col))"

text \<open>
  \<open>df[mask]\<close> with a boolean mask, and \<open>a | b\<close> on the two answers of
  \<open>str.contains\<close>. Where the left answer is missing, \<open>|\<close> gives \<open>False\<close>,
  whatever the right answer is; a missing right answer counts as \<open>False\<close>.
\<close>

definition mask_rows :: "'a list \<Rightarrow> bool list \<Rightarrow> 'a list" where
  "mask_rows df m = map fst (filter snd (zip df m))"

definition mask_or :: "bool option list \<Rightarrow> bool option list \<Rightarrow> bool list" where
  "mask_or a b =
     map (\<lambda>(x, y). case x of None \<Rightarrow> False
                      | Some p \<Rightarrow> p \<or> (case y of None \<Rightarrow> False | Some q \<Rightarrow> q)) (zip a b)"

subsection \<open>The rows\<close>

text \<open>
  The rows of the two data frames, with the columns the source reads. A searched
  column holds a string, or nothing where the service sent null.
\<close>

record shipment =
  ShipmentID :: int
  ShipmentName :: "pystr option"
  ParcelName :: pystr
  CustomerName :: "pystr option"
  Status :: pystr
  CurrentLocation :: pystr

record customer =
  CustomerID :: int
  Name :: "pystr option"
  Email :: "pystr option"
  Phone :: pystr
  Address :: pystr
  Type :: pystr

text \<open>Lines 204--208: the View Shipments search.\<close>

definition view_shipments_filter ::
  "runtime \<Rightarrow> pystr \<Rightarrow> shipment list \<Rightarrow> exn + shipment list" where
  "view_shipments_filter rt search_term df_shipments =
     (if search_term \<noteq> [] then
        (case str_contains rt search_term (map ShipmentName df_shipments) of
           Inl e \<Rightarrow> Inl e
         | Inr a \<Rightarrow>
            (case str_contains rt search_term (map CustomerName df_shipments) of
               Inl e \<Rightarrow> Inl e
             | Inr b \<Rightarrow> Inr (mask_rows df_shipments (mask_or a b))))
      else Inr df_shipments)"

text \<open>Lines 258--262: the Customers search.\<close>

definition customers_filter ::
  "runtime \<Rightarrow> pystr \<Rightarrow> customer list \<Rightarrow> exn + customer list" where
  "customers_filter rt search_term df_customers =
     (if search_term \<noteq> [] then
        (case str_contains rt search_term (map Name df_customers) of
           Inl e \<Rightarrow> Inl e
         | Inr a \<Rightarrow>
            (case str_contains rt search_term (map Email df_customers) of
               Inl e \<Rightarrow> Inl e
             | Inr b \<Rightarrow> Inr (mask_rows df_customers (mask_or a b))))
      else Inr df_customers)"

subsection \<open>The specification's reading of the search\<close>

text \<open>
  The specification speaks of the term as a case-insensitive substring of the field: some
  stretch of the field, as long as the term, agrees with it character by character up to
  case.
\<close>

definition ci_substring :: "runtime \<Rightarrow> pystr \<Rightarrow> pystr \<Rightarrow> bool" where
  "ci_substring rt t s = (\<exists>pre mid post. s = pre @ mid @ post \<and> list_all2 (ci_eq rt) t mid)"

text \<open>The term is a case-insensitive substring of a field that holds a string.\<close>

definition in_field :: "runtime \<Rightarrow> pystr \<Rightarrow> pystr option \<Rightarrow> bool" where
  "in_field rt t f = (\<exists>s. f = Some s \<and> ci_substring rt t s)"

definition plain_text :: "pystr \<Rightarrow> bool" where
  "plain_text t = list_all (\<lambda>c. \<not> is_meta c) t"

text \<open>The two searched fields of a row hold strings.\<close>

definition named :: "shipment \<Rightarrow> bool" where
  "named r = (ShipmentName r \<noteq> None \<and> CustomerName r \<noteq> None)"

definition addressed :: "customer \<Rightarrow> bool" where
  "addressed r = (Name r \<noteq> None \<and> Email r \<noteq> None)"

definition is_ascii :: "pystr \<Rightarrow> bool" where
  "is_ascii s = list_all (\<lambda>c. c < 128) s"

definition shipment_abc :: shipment where
  "shipment_abc = \<lparr> ShipmentID = 1, ShipmentName = Some (lit ''abc''), ParcelName = lit ''box'',
     CustomerName = Some (lit ''Bob''), Status = lit ''In Transit'', CurrentLocation = lit ''Bonn'' \<rparr>"

definition shipment_xyz :: shipment where
  "shipment_xyz = \<lparr> ShipmentID = 2, ShipmentName = Some (lit ''xyz''), ParcelName = lit ''bag'',
     CustomerName = Some (lit ''Eve''), Status = lit ''Delayed'', CurrentLocation = lit ''Kiel'' \<rparr>"

definition shipment_unnamed :: shipment where
  "shipment_unnamed = \<lparr> ShipmentID = 3, ShipmentName = None, ParcelName = lit ''box'',
     CustomerName = Some (lit ''Bob''), Status = lit ''Delayed'', CurrentLocation = lit ''Kiel'' \<rparr>"

definition customer_bob :: customer where
  "customer_bob = \<lparr> CustomerID = 1, Name = Some (lit ''Bob''),
     Email = Some (lit ''bob@abc.de''),
     Phone = lit ''123'', Address = lit ''Bonn'', Type = lit ''Retail'' \<rparr>"

definition customer_eve :: customer where
  "customer_eve = \<lparr> CustomerID = 2, Name = Some (lit ''Eve''),
     Email = Some (lit ''eve@xyz.de''),
     Phone = lit ''456'', Address = lit ''Kiel'', Type = lit ''Business'' \<rparr>"

section \<open>The HTTP calls and what a run shows\<close>

text \<open>
  The resources the modelled code addresses, named by their paths under the base URL.
\<close>

datatype url =
    Customer json
  | Parcel_status json
  | Dashboard_summary
  | Shipment_status_count
  | Efficiency_by_parcel_type
  | Shipments_limit5
  | Shipments "pystr option"
  | Shipment json
  | Customers
  | Parcels

datatype request = Get url | Put url json

text \<open>
  A response carries its status code and, when its body is JSON, what \<open>response.json()\<close>
  returns for it. The remote service is a function from the request to the text of the
  exception \<open>requests\<close> raises when the transport fails, or to the response.
\<close>

record response =
  status_code :: int
  body :: "json option"

type_synonym api = "request \<Rightarrow> pystr + response"

datatype error_text =
    Customer_not_found
  | Error_detail json
  | Connection_error exn
  | Error_fetching exn
  | Error_updating exn

datatype success_text = Status_updated | Shipment_updated

text \<open>
  What a run of the script does, in order: the HTTP call it makes, the message it shows
  with \<open>st.error\<close> or \<open>st.success\<close>, the card it writes, the markup or text it
  writes with the value it has read under a key, the select box it shows with its options,
  the rerun it requests, and the part of a page it has the libraries draw from fetched
  data. A run is the list of these and the exception that ended it, if one was left
  uncaught.
\<close>

datatype effect =
    Request request
  | St_error error_text
  | St_success success_text
  | St_markdown json json json
  | St_value pystr json
  | St_selectbox "pystr list"
  | St_rerun
  | Render part json

type_synonym run = "effect list \<times> exn option"

text \<open>One piece of the script after another: what follows an exception is not run.\<close>

definition then_run :: "run \<Rightarrow> run \<Rightarrow> run" where
  "then_run r k = (case snd r of None \<Rightarrow> (fst r @ fst k, snd k) | Some e \<Rightarrow> r)"

text \<open>Markup or text written with \<open>v[k]\<close>.\<close>

definition st_value :: "json \<Rightarrow> pystr \<Rightarrow> run" where
  "st_value v k =
     (case subscript v k of Inl e \<Rightarrow> ([], Some e) | Inr x \<Rightarrow> ([St_value k x], None))"

text \<open>
  The calls that draw a part from fetched data: the data frame built from the data, the
  selection and search of its columns, the chart and the display. They show the part, or
  one of them raises the exception that ends the run.
\<close>

definition draw :: "runtime \<Rightarrow> part \<Rightarrow> json \<Rightarrow> run" where
  "draw rt p d = (case draw_u rt p d of None \<Rightarrow> ([Render p d], None) | Some e \<Rightarrow> ([], Some e))"

definition response_json :: "response \<Rightarrow> exn + json" where
  "response_json r = (case body r of None \<Rightarrow> Inl JSONDecodeError | Some j \<Rightarrow> Inr j)"

definition raise_for_status :: "response \<Rightarrow> exn + response" where
  "raise_for_status r =
     (if 400 \<le> status_code r \<and> status_code r < 600 then Inl (HTTPError (status_code r))
      else Inr r)"

definition send :: "api \<Rightarrow> request \<Rightarrow> exn + response" where
  "send a rq = (case a rq of Inl m \<Rightarrow> Inl (TransportError m) | Inr r \<Rightarrow> Inr r)"

section \<open>app.py: the form handlers\<close>

text \<open>
  \<open>st.error(f"Error: {response.json().get('detail', 'Unknown error')}")\<close>, the last
  branch of each handler.
\<close>

definition error_detail :: "response \<Rightarrow> exn + effect" where
  "error_detail r =
     (case response_json r of
        Inl e \<Rightarrow> Inl e
      | Inr j \<Rightarrow>
         (case dict_get j (lit ''detail'') (JStr (lit ''Unknown error'')) of
            Inl e \<Rightarrow> Inl e
          | Inr d \<Rightarrow> Inr (St_error (Error_detail d))))"

text \<open>
  \<open>except requests.exceptions.RequestException as e: st.error(f"Connection error: {str(e)}")\<close>
  around the body of a handler; any other exception leaves the handler.
\<close>

definition except_RequestException :: "exn + effect \<Rightarrow> run" where
  "except_RequestException r =
     (case r of
        Inr shown \<Rightarrow> ([shown], None)
      | Inl e \<Rightarrow> if is_RequestException e then ([St_error (Connection_error e)], None)
                 else ([], Some e))"

text \<open>Lines 79--95, Customer Lookup.\<close>

definition customer_card :: "json \<Rightarrow> exn + effect" where
  "customer_card customer =
     (case subscript customer (lit ''CustomerID'') of
        Inl e \<Rightarrow> Inl e
      | Inr i \<Rightarrow>
         (case subscript customer (lit ''Name'') of
            Inl e \<Rightarrow> Inl e
          | Inr n \<Rightarrow>
             (case subscript customer (lit ''Address'') of
                Inl e \<Rightarrow> Inl e
              | Inr a \<Rightarrow> Inr (St_markdown i n a))))"

definition customer_response :: "response \<Rightarrow> exn + effect" where
  "customer_response r =
     (if status_code r = 200 then
        (case response_json r of Inl e \<Rightarrow> Inl e | Inr customer \<Rightarrow> customer_card customer)
      else if status_code r = 404 then Inr (St_error Customer_not_found)
      else error_detail r)"

definition submit_customer :: "api \<Rightarrow> int \<Rightarrow> run" where
  "submit_customer a customer_id =
     (let rq = Get (Customer (JInt customer_id));
          (shown, raised) = except_RequestException
             (case send a rq of Inl e \<Rightarrow> Inl e | Inr r \<Rightarrow> customer_response r)
      in (Request rq # shown, raised))"

text \<open>Lines 151--165, Update Status.\<close>

definition status_response :: "response \<Rightarrow> exn + effect" where
  "status_response r =
     (if status_code r = 200 then Inr (St_success Status_updated) else error_detail r)"

definition submit_status :: "api \<Rightarrow> int \<Rightarrow> pystr \<Rightarrow> run" where
  "submit_status a update_parcel_id status =
     (let rq = Put (Parcel_status (JInt update_parcel_id)) (JObj [(lit ''status'', JStr status)]);
          (shown, raised) = except_RequestException
             (case send a rq of Inl e \<Rightarrow> Inl e | Inr r \<Rightarrow> status_response r)
      in (Request rq # shown, raised))"

section \<open>dhl_logistics_app.py: helpers and pages\<close>

text \<open>Lines 58--66. The function returns \<open>None\<close> when it has shown the error.\<close>

definition fetch_api_data :: "api \<Rightarrow> url \<Rightarrow> effect list \<times> json" where
  "fetch_api_data a endpoint =
     (case (case send a (Get endpoint) of
              Inl e \<Rightarrow> Inl e
            | Inr r \<Rightarrow> (case raise_for_status r of Inl e \<Rightarrow> Inl e | Inr r' \<Rightarrow> response_json r')) of
        Inl e \<Rightarrow> ([Request (Get endpoint), St_error (Error_fetching e)], JNull)
      | Inr j \<Rightarrow> ([Request (Get endpoint)], j))"

text \<open>Lines 68--79.\<close>

definition update_shipment_status :: "api \<Rightarrow> json \<Rightarrow> pystr \<Rightarrow> pystr \<Rightarrow> effect list \<times> bool" where
  "update_shipment_status a shipment_id status location =
     (let rq = Put (Shipment shipment_id)
                 (JObj [(lit ''Status'', JStr status), (lit ''CurrentLocation'', JStr location)])
      in case (case send a rq of Inl e \<Rightarrow> Inl e | Inr r \<Rightarrow> raise_for_status r) of
           Inl e \<Rightarrow> ([Request rq, St_error (Error_updating e)], False)
         | Inr r \<Rightarrow> ([Request rq], True))"

text \<open>
  Lines 100--183, the Dashboard page: the four cards written from the summary, then the
  two charts and the table, each from a fetch of its own.
\<close>

definition page_Dashboard :: "runtime \<Rightarrow> api \<Rightarrow> run" where
  "page_Dashboard rt a =
     (case fetch_api_data a Dashboard_summary of
        (e0, summary) \<Rightarrow>
          if truthy summary then
            then_run (e0, None)
           (then_run (st_value summary (lit ''total_shipments''))
           (then_run (st_value summary (lit ''active_shipments''))
           (then_run (st_value summary (lit ''delayed_shipments''))
           (then_run (st_value summary (lit ''completed_shipments''))
           (then_run
              (case fetch_api_data a Shipment_status_count of
                 (e1, status_counts) \<Rightarrow>
                   then_run (e1, None)
                     (if truthy status_counts then draw rt Status_chart status_counts
                      else ([], None)))
           (then_run
              (case fetch_api_data a Efficiency_by_parcel_type of
                 (e2, efficiency_data) \<Rightarrow>
                   then_run (e2, None)
                     (if truthy efficiency_data then draw rt Efficiency_chart efficiency_data
                      else ([], None)))
              (case fetch_api_data a Shipments_limit5 of
                 (e3, shipments) \<Rightarrow>
                   then_run (e3, None)
                     (if truthy shipments then draw rt Recent_shipments shipments
                      else ([], None)))))))))
          else (e0, None))"

text \<open>
  Lines 186--245, the Shipments page. The record holds the variables of the script that the
  button handler reads. The widgets set the sidebar's status filter, the position chosen
  in the select box, the new status and location, and whether this run was started by a
  click on the button; the script itself assigns \<open>shipment_id\<close> and
  \<open>current_shipment\<close> (lines 223 and 226).
\<close>

record shipments_input =
  status_filter :: pystr
  selected :: nat
  shipment_id :: json
  current_shipment :: json
  new_status :: pystr
  new_location :: pystr
  clicked :: bool

text \<open>Lines 242--245.\<close>

definition update_shipment_button :: "api \<Rightarrow> shipments_input \<Rightarrow> effect list" where
  "update_shipment_button a inp =
     (if clicked inp then
        (case update_shipment_status a (shipment_id inp) (new_status inp) (new_location inp) of
           (es, ok) \<Rightarrow> if ok then es @ [St_success Shipment_updated, St_rerun] else es)
      else [])"

text \<open>
  Line 216: the items of \<open>shipment_options\<close>, one for each shipment of the list, in the
  order of the list.
\<close>

definition shipment_item :: "runtime \<Rightarrow> json \<Rightarrow> exn + (pystr \<times> json)" where
  "shipment_item rt s =
     (case subscript s (lit ''ShipmentID'') of
        Inl e \<Rightarrow> Inl e
      | Inr i \<Rightarrow>
         (case subscript s (lit ''ShipmentName'') of
            Inl e \<Rightarrow> Inl e
          | Inr n \<Rightarrow> Inr (py_str rt i @ lit '' - '' @ py_str rt n, i)))"

fun shipment_items :: "runtime \<Rightarrow> json list \<Rightarrow> exn + (pystr \<times> json) list" where
  "shipment_items rt [] = Inr []"
| "shipment_items rt (s # ss) =
     (case shipment_item rt s of
        Inl e \<Rightarrow> Inl e
      | Inr kv \<Rightarrow>
         (case shipment_items rt ss of Inl e \<Rightarrow> Inl e | Inr kvs \<Rightarrow> Inr (kv # kvs)))"

text \<open>
  The keys of the dictionary built from the items, each at its first place, and the value
  under a key, which is that of the last item with the key.
\<close>

definition dict_keys :: "(pystr \<times> json) list \<Rightarrow> pystr list" where
  "dict_keys items = rev (remdups (rev (map fst items)))"

definition dict_value :: "(pystr \<times> json) list \<Rightarrow> pystr \<Rightarrow> exn + json" where
  "dict_value items k =
     (case map_of (rev items) k of None \<Rightarrow> Inl (KeyError k) | Some v \<Rightarrow> Inr v)"

text \<open>
  Lines 216--245, the Update Shipment tab once the list is fetched and counts as true.
  The select box returns the option at the chosen position (the first option when the
  position is beyond the options, and \<open>None\<close> when there is no option).
\<close>

definition update_tab :: "runtime \<Rightarrow> api \<Rightarrow> shipments_input \<Rightarrow> json \<Rightarrow> run" where
  "update_tab rt a inp shipments =
     (case iterate shipments of
        Inl e \<Rightarrow> ([], Some e)
      | Inr rows \<Rightarrow>
         (case shipment_items rt rows of
            Inl e \<Rightarrow> ([], Some e)
          | Inr items \<Rightarrow>
             (let options = dict_keys items;
                  selected_shipment =
                    (if options = [] then lit ''None''
                     else options ! (if selected inp < length options then selected inp else 0))
              in case dict_value items selected_shipment of
                   Inl e \<Rightarrow> ([St_selectbox options], Some e)
                 | Inr sid \<Rightarrow>
                    (case find (\<lambda>s. case subscript s (lit ''ShipmentID'') of
                                       Inl e \<Rightarrow> False
                                     | Inr i \<Rightarrow> py_eq rt i sid) rows of
                       None \<Rightarrow> ([St_selectbox options], None)
                     | Some cur \<Rightarrow>
                        if truthy cur then
                          then_run ([St_selectbox options], None)
                         (then_run (st_value cur (lit ''Status''))
                         (then_run (st_value cur (lit ''CurrentLocation''))
                            (update_shipment_button a
                               (inp\<lparr>shipment_id := sid, current_shipment := cur\<rparr>), None)))
                        else ([St_selectbox options], None)))))"

text \<open>Lines 198--210, the View Shipments tab, and lines 212--245, the Update Shipment tab.\<close>

definition tab1 :: "runtime \<Rightarrow> api \<Rightarrow> shipments_input \<Rightarrow> run" where
  "tab1 rt a inp =
     (case fetch_api_data a
             (Shipments (if status_filter inp = lit ''All'' then None
                         else Some (status_filter inp))) of
        (e1, shipments) \<Rightarrow>
          then_run (e1, None)
            (if truthy shipments then draw rt Shipments_table shipments else ([], None)))"

definition tab2 :: "runtime \<Rightarrow> api \<Rightarrow> shipments_input \<Rightarrow> run" where
  "tab2 rt a inp =
     (case fetch_api_data a (Shipments None) of
        (e2, shipments) \<Rightarrow>
          then_run (e2, None)
            (if truthy shipments then update_tab rt a inp shipments else ([], None)))"

definition page_Shipments :: "runtime \<Rightarrow> api \<Rightarrow> shipments_input \<Rightarrow> run" where
  "page_Shipments rt a inp = then_run (tab1 rt a inp) (tab2 rt a inp)"

text \<open>
  \<open>st.rerun()\<close> ends the run and starts the script again with the widgets as they are;
  the button reads as not clicked in the new run. The service may answer the new run
  differently, having applied the update.
\<close>

definition session_Shipments :: "runtime \<Rightarrow> api \<Rightarrow> api \<Rightarrow> shipments_input \<Rightarrow> run" where
  "session_Shipments rt a a' inp =
     (case page_Shipments rt a inp of
        (t, raised) \<Rightarrow>
          if St_rerun \<in> set t
          then (case page_Shipments rt a' (inp\<lparr>clicked := False\<rparr>) of
                  (t', raised') \<Rightarrow> (t @ t', raised'))
          else (t, raised))"

text \<open>
  Lines 248--298, the Customers page, and lines 301--342, the Parcels page, as far as their
  fetches and the guards on the fetched data go: \<open>Render\<close> stands here for all that
  the script does with the data once the guard has let it pass. The customer chosen in
  the select box is an input.
\<close>

definition page_Customers :: "api \<Rightarrow> json \<Rightarrow> effect list" where
  "page_Customers a selected_customer_id =
     (case fetch_api_data a Customers of
        (e1, customers) \<Rightarrow>
          e1 @
          (if truthy customers then
             Render Customers_table customers #
             (case fetch_api_data a (Customer selected_customer_id) of
                (e2, customer_detail) \<Rightarrow>
                  e2 @ (if truthy customer_detail then [Render Customer_details customer_detail]
                        else []))
           else []))"

definition page_Parcels :: "api \<Rightarrow> effect list" where
  "page_Parcels a =
     (case fetch_api_data a Parcels of
        (e1, parcels) \<Rightarrow> e1 @ (if truthy parcels then [Render Parcels_table parcels] else []))"

subsection \<open>Services for evaluating the model\<close>

text \<open>
  \<open>answer c b\<close> answers every request with status \<open>c\<close> and body \<open>b\<close>; \<open>refused\<close>
  fails every request in the transport; \<open>failing_at u a\<close> is \<open>a\<close> with the GET of \<open>u\<close>
  failing in the transport.
\<close>

definition answer :: "int \<Rightarrow> json option \<Rightarrow> api" where
  "answer c b rq = Inr \<lparr> status_code = c, body = b \<rparr>"

definition refused :: api where
  "refused rq = Inl (lit ''refused'')"

definition failing_at :: "url \<Rightarrow> api \<Rightarrow> api" where
  "failing_at u a rq = (if rq = Get u then Inl (lit ''refused'') else a rq)"

definition shipment_7 :: json where
  "shipment_7 = JObj [(lit ''ShipmentID'', JInt 7), (lit ''ShipmentName'', JStr (lit ''Box'')),
     (lit ''Status'', JStr (lit ''Processing'')), (lit ''CurrentLocation'', JStr (lit ''Kiel''))]"

definition one_row :: json where
  "one_row = JArr [shipment_7]"

definition input_click :: shipments_input where
  "input_click = \<lparr> status_filter = lit ''All'', selected = 0, shipment_id = JInt 7,
     current_shipment = shipment_7, new_status = lit ''Delivered'',
     new_location = lit ''Bonn'', clicked = True \<rparr>"



section \<open>Substring tests\<close>

lemma startswith_iff: "startswith s p \<longleftrightarrow> (\<exists>post. s = p @ post)"
  by (induction s p rule: startswith.induct) auto

lemma py_in_iff: "py_in sub s \<longleftrightarrow> (\<exists>pre post. s = pre @ sub @ post)"
proof (induction s)
  case Nil
  then show ?case by auto
next
  case (Cons c cs)
  have "(\<exists>pre post. c # cs = pre @ sub @ post) \<longleftrightarrow>
        (\<exists>post. c # cs = sub @ post) \<or> (\<exists>pre post. cs = pre @ sub @ post)"
    (is "?L \<longleftrightarrow> ?A \<or> ?B")
  proof
    assume ?L
    then obtain pre post where e: "c # cs = pre @ sub @ post" by blast
    show "?A \<or> ?B"
    proof (cases pre)
      case Nil
      with e show ?thesis by auto
    next
      case (Cons x pre')
      with e have "cs = pre' @ sub @ post" by simp
      then show ?thesis by blast
    qed
  next
    assume "?A \<or> ?B"
    then show ?L
    proof
      assume ?A
      then obtain post where "c # cs = [] @ sub @ post" by auto
      then show ?L by blast
    next
      assume ?B
      then obtain pre post where "cs = pre @ sub @ post" by blast
      then have "c # cs = (c # pre) @ sub @ post" by simp
      then show ?L by blast
    qed
  qed
  with Cons show ?case by (simp add: startswith_iff)
qed

section \<open>The status class\<close>

lemmas status_eval = lit_def lower_def ascii_lower_def status_class_def

lemma categories_distinct:
  "Delivered \<noteq> InTransit \<and> InTransit \<noteq> Processing \<and> Delivered \<noteq> Processing"
  by (simp add: Delivered_def InTransit_def Processing_def lit_def)

text \<open>
  C1. On a status string the class is Delivered when the lowercased string equals
  "delivered", InTransit when that fails and the lowercased string has "transit"
  somewhere in it, and Processing in every other case, the empty string included. The
  spec's eight examples come out as it lists them, whatever the Unicode tables are.
\<close>

theorem status_class_mapping:
  "status_class rt (JStr s) =
     Inr (if lower rt s = lit ''delivered'' then Delivered
          else if (\<exists>pre post. lower rt s = pre @ lit ''transit'' @ post) then InTransit
          else Processing)
   \<and> status_class rt (JStr (lit ''Delivered'')) = Inr Delivered
   \<and> status_class rt (JStr (lit ''delivered'')) = Inr Delivered
   \<and> status_class rt (JStr (lit ''DELIVERED'')) = Inr Delivered
   \<and> status_class rt (JStr (lit ''In Transit'')) = Inr InTransit
   \<and> status_class rt (JStr (lit ''out for transit hub'')) = Inr InTransit
   \<and> status_class rt (JStr (lit ''Processing'')) = Inr Processing
   \<and> status_class rt (JStr []) = Inr Processing
   \<and> status_class rt (JStr (lit ''unknown-xyz'')) = Inr Processing"
proof (intro conjI)
  show "status_class rt (JStr s) =
     Inr (if lower rt s = lit ''delivered'' then Delivered
          else if (\<exists>pre post. lower rt s = pre @ lit ''transit'' @ post) then InTransit
          else Processing)"
    by (simp add: status_class_def py_in_iff)
qed (simp_all add: status_eval)

text \<open>
  C2, as it is written: a status in which both words occur is classified Delivered. The
  status "Delivered to transit hub" has both and is classified InTransit.
\<close>

theorem delivered_first_counterexample:
  "py_in (lit ''delivered'') (lower rt0 (lit ''Delivered to transit hub''))
   \<and> py_in (lit ''transit'') (lower rt0 (lit ''Delivered to transit hub''))
   \<and> status_class rt0 (JStr (lit ''Delivered to transit hub'')) = Inr InTransit
   \<and> status_class rt0 (JStr (lit ''Delivered to transit hub'')) \<noteq> Inr Delivered"
  by (simp add: status_eval Delivered_def InTransit_def)

text \<open>
  C2, amended: the first test is an equality with "delivered", so no status passes it and
  has "transit" in it; the order of the two tests never decides. Every status whose
  lowercased form has "transit" in it is InTransit, whatever else it contains.
\<close>

theorem transit_never_delivered:
  assumes "py_in (lit ''transit'') (lower rt s)"
  shows "lower rt s \<noteq> lit ''delivered'' \<and> status_class rt (JStr s) = Inr InTransit"
proof -
  have "\<not> py_in (lit ''transit'') (lit ''delivered'')"
    by (simp add: lit_def)
  with assms have "lower rt s \<noteq> lit ''delivered''"
    by auto
  with assms show ?thesis
    by (simp add: status_class_def)
qed

theorem transit_never_delivered_witness:
  "py_in (lit ''transit'') (lower rt0 (lit ''Delivered to transit hub''))
   \<and> lower rt0 (lit ''Delivered to transit hub'') \<noteq> lit ''delivered''
   \<and> status_class rt0 (JStr (lit ''Delivered to transit hub'')) = Inr InTransit"
proof -
  have h: "py_in (lit ''transit'') (lower rt0 (lit ''Delivered to transit hub''))"
    by (simp add: lit_def lower_def ascii_lower_def)
  from transit_never_delivered [OF h] h show ?thesis
    by simp
qed

text \<open>
  C3. On every string, of any length and with any code points, the classifier returns
  and its result is one of the three categories, which are three different values. The
  result is a function of the string (and of the interpreter's case tables) alone.
\<close>

theorem status_class_total:
  "(\<exists>c. status_class rt (JStr s) = Inr c \<and> (c = Delivered \<or> c = InTransit \<or> c = Processing))
   \<and> Delivered \<noteq> InTransit \<and> InTransit \<noteq> Processing \<and> Delivered \<noteq> Processing"
proof -
  have "\<exists>c. status_class rt (JStr s) = Inr c \<and> (c = Delivered \<or> c = InTransit \<or> c = Processing)"
    by (simp add: status_class_def)
  with categories_distinct show ?thesis
    by simp
qed

section \<open>The search filters\<close>

lemma parse_atoms_plain: "plain_text t \<Longrightarrow> parse_atoms t = Some (map Chr t)"
  by (induction t) (auto simp: plain_text_def is_meta_def lit_def)

lemma match_here_Chr:
  "match_here rt (map Chr t) s \<longleftrightarrow> (\<exists>mid post. s = mid @ post \<and> list_all2 (ci_eq rt) t mid)"
proof (induction t arbitrary: s)
  case Nil
  then show ?case by simp
next
  case (Cons c t)
  show ?case
  proof (cases s)
    case Nil
    then show ?thesis by simp
  next
    case (Cons d ds)
    have "(\<exists>mid post. d # ds = mid @ post \<and> list_all2 (ci_eq rt) (c # t) mid) \<longleftrightarrow>
          (ci_eq rt c d \<and> (\<exists>mid post. ds = mid @ post \<and> list_all2 (ci_eq rt) t mid))"
      by (auto simp: list_all2_Cons1 Cons_eq_append_conv)
    with Cons Cons.IH [of ds] show ?thesis by simp
  qed
qed

lemma re_search_Chr: "re_search rt (map Chr t) s \<longleftrightarrow> ci_substring rt t s"
proof (induction s)
  case Nil
  then show ?case by (auto simp: ci_substring_def match_here_Chr)
next
  case (Cons d ds)
  have "ci_substring rt t (d # ds) \<longleftrightarrow>
        (\<exists>mid post. d # ds = mid @ post \<and> list_all2 (ci_eq rt) t mid) \<or> ci_substring rt t ds"
    (is "?L \<longleftrightarrow> ?A \<or> ?B")
  proof
    assume ?L
    then obtain pre mid post
      where e: "d # ds = pre @ mid @ post" and m: "list_all2 (ci_eq rt) t mid"
      unfolding ci_substring_def by blast
    show "?A \<or> ?B"
    proof (cases pre)
      case Nil
      with e m show ?thesis by auto
    next
      case (Cons x pre')
      with e have "ds = pre' @ mid @ post" by simp
      with m show ?thesis unfolding ci_substring_def by blast
    qed
  next
    assume "?A \<or> ?B"
    then show ?L
    proof
      assume ?A
      then obtain mid post where "d # ds = [] @ mid @ post" "list_all2 (ci_eq rt) t mid"
        by auto
      then show ?L unfolding ci_substring_def by blast
    next
      assume ?B
      then obtain pre mid post where "ds = pre @ mid @ post" "list_all2 (ci_eq rt) t mid"
        unfolding ci_substring_def by blast
      then have "d # ds = (d # pre) @ mid @ post \<and> list_all2 (ci_eq rt) t mid" by simp
      then show ?L unfolding ci_substring_def by blast
    qed
  qed
  with Cons show ?case by (simp add: match_here_Chr)
qed

lemma ci_substring_code: "ci_substring rt t s = re_search rt (map Chr t) s"
  by (simp add: re_search_Chr)

lemma ci_substring_empty: "ci_substring rt [] s"
  by (cases s) (simp_all add: ci_substring_code)

lemma mask_rows_or:
  "mask_rows df (mask_or (map f df) (map g df)) =
     filter (\<lambda>r. case f r of None \<Rightarrow> False
                  | Some p \<Rightarrow> p \<or> (case g r of None \<Rightarrow> False | Some q \<Rightarrow> q)) df"
  by (induction df) (auto simp: mask_rows_def mask_or_def split: option.splits)

lemma str_contains_plain:
  "plain_text t \<Longrightarrow> str_contains rt t col = Inr (map (map_option (ci_substring rt t)) col)"
  by (simp add: str_contains_def re_compile_def parse_atoms_plain re_search_Chr [abs_def])

text \<open>
  What the two filters return for a term without metacharacters, null fields included:
  a row is kept when its first searched field holds a string and the term is in one of
  its two searched fields.
\<close>

lemma kept_iff:
  "(case map_option c f of None \<Rightarrow> False
    | Some p \<Rightarrow> p \<or> (case map_option c g of None \<Rightarrow> False | Some q \<Rightarrow> q))
   = (f \<noteq> None \<and> ((\<exists>s. f = Some s \<and> c s) \<or> (\<exists>s. g = Some s \<and> c s)))"
  by (cases f; cases g) auto

lemma view_shipments_filter_plain:
  assumes "plain_text t" and "t \<noteq> []"
  shows "view_shipments_filter rt t df =
           Inr (filter (\<lambda>r. ShipmentName r \<noteq> None
                  \<and> (in_field rt t (ShipmentName r) \<or> in_field rt t (CustomerName r))) df)"
proof -
  from assms have "view_shipments_filter rt t df =
      Inr (mask_rows df
        (mask_or (map (\<lambda>r. map_option (ci_substring rt t) (ShipmentName r)) df)
                 (map (\<lambda>r. map_option (ci_substring rt t) (CustomerName r)) df)))"
    by (simp add: view_shipments_filter_def str_contains_plain comp_def)
  then show ?thesis
    by (simp only: mask_rows_or kept_iff in_field_def)
qed

lemma customers_filter_plain:
  assumes "plain_text t" and "t \<noteq> []"
  shows "customers_filter rt t cs =
           Inr (filter (\<lambda>r. Name r \<noteq> None
                  \<and> (in_field rt t (Name r) \<or> in_field rt t (Email r))) cs)"
proof -
  from assms have "customers_filter rt t cs =
      Inr (mask_rows cs
        (mask_or (map (\<lambda>r. map_option (ci_substring rt t) (Name r)) cs)
                 (map (\<lambda>r. map_option (ci_substring rt t) (Email r)) cs)))"
    by (simp add: customers_filter_def str_contains_plain comp_def)
  then show ?thesis
    by (simp only: mask_rows_or kept_iff in_field_def)
qed

text \<open>
  On ASCII strings, agreeing up to case is having the same lowercased form: the term is a
  case-insensitive substring of the field when the lowercased term occurs in the
  lowercased field.
\<close>

lemma lower_from_ascii: "is_ascii cs \<Longrightarrow> lower_from rt s i cs = map ascii_lower cs"
  by (induction cs arbitrary: i) (auto simp: is_ascii_def)

lemma lower_ascii: "is_ascii s \<Longrightarrow> lower rt s = map ascii_lower s"
  by (simp add: lower_def lower_from_ascii)

lemma list_all2_ci_eq_ascii:
  "is_ascii t \<Longrightarrow> is_ascii m \<Longrightarrow>
     list_all2 (ci_eq rt) t m \<longleftrightarrow> map ascii_lower t = map ascii_lower m"
proof (induction t arbitrary: m)
  case Nil
  then show ?case by auto
next
  case (Cons c t)
  then show ?case
    by (cases m) (auto simp: is_ascii_def ci_eq_def)
qed

lemma is_ascii_append: "is_ascii (xs @ ys) \<longleftrightarrow> is_ascii xs \<and> is_ascii ys"
  by (simp add: is_ascii_def)

lemma map_eq_appendD:
  assumes "map f s = p @ r"
  shows "\<exists>a b. s = a @ b \<and> map f a = p \<and> map f b = r"
proof -
  from assms have "p = take (length p) (map f s)" and "r = drop (length p) (map f s)"
    by simp_all
  then have "map f (take (length p) s) = p" and "map f (drop (length p) s) = r"
    by (simp_all add: take_map drop_map)
  moreover have "s = take (length p) s @ drop (length p) s"
    by simp
  ultimately show ?thesis
    by blast
qed

lemma ci_substring_ascii:
  assumes "is_ascii t" and "is_ascii s"
  shows "ci_substring rt t s \<longleftrightarrow> py_in (lower rt t) (lower rt s)"
proof
  assume "ci_substring rt t s"
  then obtain pre mid post where s: "s = pre @ mid @ post" and m: "list_all2 (ci_eq rt) t mid"
    unfolding ci_substring_def by blast
  from s assms(2) have "is_ascii mid"
    by (simp add: is_ascii_append)
  with m assms(1) have "map ascii_lower t = map ascii_lower mid"
    by (simp add: list_all2_ci_eq_ascii)
  with s have "map ascii_lower s = map ascii_lower pre @ map ascii_lower t @ map ascii_lower post"
    by simp
  then have "\<exists>p q. map ascii_lower s = p @ map ascii_lower t @ q"
    by blast
  with assms show "py_in (lower rt t) (lower rt s)"
    by (simp add: py_in_iff lower_ascii)
next
  assume "py_in (lower rt t) (lower rt s)"
  with assms obtain p q where "map ascii_lower s = p @ map ascii_lower t @ q"
    by (auto simp: py_in_iff lower_ascii)
  from map_eq_appendD [OF this] obtain pre rest where 1: "s = pre @ rest"
    and 2: "map ascii_lower rest = map ascii_lower t @ q"
    by blast
  from map_eq_appendD [OF 2] obtain mid post where 3: "rest = mid @ post"
    and e: "map ascii_lower mid = map ascii_lower t"
    by blast
  from 1 3 have s: "s = pre @ mid @ post"
    by simp
  from s assms(2) have "is_ascii mid"
    by (simp add: is_ascii_append)
  with e assms(1) have "list_all2 (ci_eq rt) t mid"
    by (simp add: list_all2_ci_eq_ascii)
  with s show "ci_substring rt t s"
    unfolding ci_substring_def by blast
qed

lemma in_field_ascii:
  "is_ascii t \<Longrightarrow> is_ascii s \<Longrightarrow> in_field rt t (Some s) = py_in (lower rt t) (lower rt s)"
  by (simp add: in_field_def ci_substring_ascii)

lemmas filter_eval = view_shipments_filter_def customers_filter_def str_contains_def
  re_compile_def mask_rows_def mask_or_def ci_eq_def ascii_lower_def is_meta_def lit_def
  shipment_abc_def shipment_xyz_def shipment_unnamed_def customer_bob_def customer_eve_def
  in_field_def named_def addressed_def

text \<open>
  C6, as it is written: the filter returns exactly the records in which the term is a
  case-insensitive substring of a designated field. The term "." is a substring of
  neither field of the shipment named "abc" for customer "Bob", and the filter returns
  that shipment: the term is read as a regular expression.
\<close>

theorem search_term_counterexample:
  "\<not> in_field rt0 (lit ''.'') (ShipmentName shipment_abc)
   \<and> \<not> in_field rt0 (lit ''.'') (CustomerName shipment_abc)
   \<and> \<not> py_in (lower rt0 (lit ''.'')) (lower rt0 (lit ''abc''))
   \<and> \<not> py_in (lower rt0 (lit ''.'')) (lower rt0 (lit ''Bob''))
   \<and> view_shipments_filter rt0 (lit ''.'') [shipment_abc] = Inr [shipment_abc]"
  by (simp add: ci_substring_code filter_eval lower_def)

text \<open>
  A record whose shipment name is null is not returned although the term is in its
  customer name. The amended claim stays clear of such records.
\<close>

lemma null_name_dropped:
  "in_field rt0 (lit ''bo'') (CustomerName shipment_unnamed)
   \<and> view_shipments_filter rt0 (lit ''bo'') [shipment_abc, shipment_unnamed] = Inr [shipment_abc]"
  by (simp add: ci_substring_code filter_eval)

text \<open>
  C6, amended: for every list of records whose two searched fields (shipment name and
  customer name; name and email) hold strings, the empty term yields the unfiltered list,
  and a term without a regular-expression metacharacter yields exactly the records in
  which it is a case-insensitive substring of one of the two searched fields, in their
  original order. On ASCII strings, being a case-insensitive substring is the lowercased
  term occurring in the lowercased field.
\<close>

theorem search_plain_text:
  assumes "plain_text t" and "list_all named df" and "list_all addressed cs"
  shows "view_shipments_filter rt t df =
           Inr (filter (\<lambda>r. in_field rt t (ShipmentName r)
                             \<or> in_field rt t (CustomerName r)) df)
       \<and> customers_filter rt t cs =
           Inr (filter (\<lambda>r. in_field rt t (Name r) \<or> in_field rt t (Email r)) cs)
       \<and> view_shipments_filter rt [] df = Inr df
       \<and> customers_filter rt [] cs = Inr cs
       \<and> (is_ascii t \<longrightarrow>
            (\<forall>s. is_ascii s \<longrightarrow> in_field rt t (Some s) = py_in (lower rt t) (lower rt s)))"
proof -
  have e: "view_shipments_filter rt [] df = Inr df \<and> customers_filter rt [] cs = Inr cs"
    by (simp add: view_shipments_filter_def customers_filter_def)
  have 1: "filter (\<lambda>r. ShipmentName r \<noteq> None
                  \<and> (in_field rt t (ShipmentName r) \<or> in_field rt t (CustomerName r))) df
         = filter (\<lambda>r. in_field rt t (ShipmentName r) \<or> in_field rt t (CustomerName r)) df"
    using assms(2) by (intro filter_cong) (auto simp: list_all_iff named_def)
  have 2: "filter (\<lambda>r. Name r \<noteq> None \<and> (in_field rt t (Name r) \<or> in_field rt t (Email r))) cs
         = filter (\<lambda>r. in_field rt t (Name r) \<or> in_field rt t (Email r)) cs"
    using assms(3) by (intro filter_cong) (auto simp: list_all_iff addressed_def)
  have a: "is_ascii t \<longrightarrow>
            (\<forall>s. is_ascii s \<longrightarrow> in_field rt t (Some s) = py_in (lower rt t) (lower rt s))"
    by (simp add: in_field_ascii)
  show ?thesis
  proof (cases "t = []")
    case True
    have "filter (\<lambda>r. in_field rt [] (ShipmentName r) \<or> in_field rt [] (CustomerName r)) df = df"
      using assms(2)
      by (intro filter_True) (auto simp: list_all_iff named_def in_field_def ci_substring_empty)
    moreover
    have "filter (\<lambda>r. in_field rt [] (Name r) \<or> in_field rt [] (Email r)) cs = cs"
      using assms(3)
      by (intro filter_True) (auto simp: list_all_iff addressed_def in_field_def ci_substring_empty)
    ultimately show ?thesis
      using True e a by simp
  next
    case False
    with assms(1) 1 2 e a show ?thesis
      by (simp add: view_shipments_filter_plain customers_filter_plain)
  qed
qed

theorem search_plain_text_witness:
  "plain_text (lit ''BO'')
   \<and> list_all named [shipment_xyz, shipment_abc, shipment_xyz]
   \<and> list_all addressed [customer_bob, customer_eve, customer_bob]
   \<and> view_shipments_filter rt0 (lit ''BO'') [shipment_xyz, shipment_abc, shipment_xyz]
       = Inr [shipment_abc]
   \<and> customers_filter rt0 (lit ''BO'') [customer_bob, customer_eve, customer_bob]
       = Inr [customer_bob, customer_bob]
   \<and> view_shipments_filter rt0 [] [shipment_xyz, shipment_abc, shipment_xyz]
       = Inr [shipment_xyz, shipment_abc, shipment_xyz]"
proof -
  have h: "plain_text (lit ''BO'')"
    by (simp add: plain_text_def is_meta_def lit_def)
  have n: "list_all named [shipment_xyz, shipment_abc, shipment_xyz]"
    and c: "list_all addressed [customer_bob, customer_eve, customer_bob]"
    by (simp_all add: named_def addressed_def shipment_abc_def shipment_xyz_def
        customer_bob_def customer_eve_def)
  from search_plain_text [OF h n c, of rt0] h n c
  show ?thesis
    by (simp add: ci_substring_code filter_eval)
qed

section \<open>The calls to the service\<close>

lemmas handler_eval = submit_customer_def customer_response_def customer_card_def
  submit_status_def status_response_def error_detail_def except_RequestException_def
  send_def response_json_def raise_for_status_def

lemmas service_eval = answer_def refused_def failing_at_def lit_def one_row_def input_click_def


lemma fetch_api_data_success:
  "a (Get u) = Inr r \<Longrightarrow> \<not> (400 \<le> status_code r \<and> status_code r < 600) \<Longrightarrow> body r = Some j
   \<Longrightarrow> fetch_api_data a u = ([Request (Get u)], j)"
  by (simp add: fetch_api_data_def send_def raise_for_status_def response_json_def)

text \<open>The three ways a fetch fails: in the transport, by its status, by its body.\<close>

lemma fetch_api_data_failure:
  "(a (Get u) = Inl m \<longrightarrow>
      fetch_api_data a u = ([Request (Get u), St_error (Error_fetching (TransportError m))], JNull))
   \<and> (a (Get u) = Inr r \<and> 400 \<le> status_code r \<and> status_code r < 600 \<longrightarrow>
      fetch_api_data a u =
        ([Request (Get u), St_error (Error_fetching (HTTPError (status_code r)))], JNull))
   \<and> (a (Get u) = Inr r \<and> \<not> (400 \<le> status_code r \<and> status_code r < 600) \<and> body r = None \<longrightarrow>
      fetch_api_data a u = ([Request (Get u), St_error (Error_fetching JSONDecodeError)], JNull))"
  by (simp add: fetch_api_data_def send_def raise_for_status_def response_json_def)

subsection \<open>Customer Lookup and the error taxonomy\<close>

text \<open>
  What the handler does show as the specification says: the transport failure as a
  connection error with the exception's text, 404 as not found, and any other status
  but 200 whose body is a JSON object as the error with the object's "detail", or with
  "Unknown error" when the object has none.
\<close>

lemma submit_customer_taxonomy:
  "(a (Get (Customer (JInt i))) = Inl m \<longrightarrow>
      submit_customer a i =
        ([Request (Get (Customer (JInt i))), St_error (Connection_error (TransportError m))], None))
   \<and> (a (Get (Customer (JInt i))) = Inr r \<and> status_code r = 404 \<longrightarrow>
      submit_customer a i = ([Request (Get (Customer (JInt i))), St_error Customer_not_found], None))
   \<and> (a (Get (Customer (JInt i))) = Inr r \<and> status_code r \<noteq> 200 \<and> status_code r \<noteq> 404
        \<and> body r = Some (JObj kv) \<longrightarrow>
      submit_customer a i =
        ([Request (Get (Customer (JInt i))),
          St_error (Error_detail (case map_of kv (lit ''detail'') of
                                    None \<Rightarrow> JStr (lit ''Unknown error'') | Some d \<Rightarrow> d))], None))"
  by (simp add: handler_eval)

text \<open>
  C4. A response with status 500 is to come out as the server error with a generic
  message when its body has no "detail". When the body is not JSON, the handler shows the
  connection error instead: \<open>response.json()\<close> raises, and the exception it raises is
  a \<open>RequestException\<close>. When the body is JSON but not an object, \<open>.get\<close> raises an
  \<open>AttributeError\<close> that nothing catches and no message of the handler is shown. The
  spec's own example, status 400 with a "detail", is shown as the spec says.
\<close>

theorem lookup_error_body_not_object:
  "submit_customer (answer 500 None) 1 =
     ([Request (Get (Customer (JInt 1))), St_error (Connection_error JSONDecodeError)], None)
   \<and> submit_customer (answer 500 (Some (JArr []))) 1 =
     ([Request (Get (Customer (JInt 1)))], Some AttributeError)
   \<and> submit_customer (answer 400 (Some (JObj [(lit ''detail'', JStr (lit ''bad input''))]))) 1 =
     ([Request (Get (Customer (JInt 1))), St_error (Error_detail (JStr (lit ''bad input'')))], None)"
  by (simp add: handler_eval service_eval)

subsection \<open>The success branch\<close>

text \<open>
  C5, as it is written: every 2xx status leads to the success branch. The Update Status
  handler of app.py shows an error for status 201.
\<close>

theorem status_201_counterexample:
  "submit_status (answer 201 (Some (JObj []))) 1 (lit ''Delivered'') =
     ([Request (Put (Parcel_status (JInt 1)) (JObj [(lit ''status'', JStr (lit ''Delivered''))])),
       St_error (Error_detail (JStr (lit ''Unknown error'')))], None)"
  by (simp add: handler_eval service_eval)

text \<open>
  C5, amended: in the Update Status handler of app.py the success branch is the branch of
  status 200 and of no other status: the confirmation is shown exactly when the status is
  200, without the body being read, and every other status, the other 2xx among them,
  gets what the error branch shows. In dhl_logistics_app.py, \<open>fetch_api_data\<close>
  returns the parsed body of every 2xx response whose body is JSON, and shows no error.
\<close>

theorem success_branches:
  assumes "a (Put (Parcel_status (JInt i)) (JObj [(lit ''status'', JStr st)])) = Inr r"
      and "a' (Get u) = Inr r'" and "200 \<le> status_code r'" and "status_code r' < 300"
      and "body r' = Some j"
  shows "(St_success Status_updated \<in> set (fst (submit_status a i st)) \<longleftrightarrow> status_code r = 200)
       \<and> (if status_code r = 200
          then submit_status a i st =
            ([Request (Put (Parcel_status (JInt i)) (JObj [(lit ''status'', JStr st)])),
              St_success Status_updated], None)
          else submit_status a i st =
            (Request (Put (Parcel_status (JInt i)) (JObj [(lit ''status'', JStr st)]))
               # fst (except_RequestException (error_detail r)),
             snd (except_RequestException (error_detail r))))
       \<and> fetch_api_data a' u = ([Request (Get u)], j)"
proof -
  have n: "St_success Status_updated \<notin> set (fst (except_RequestException (error_detail r)))"
    by (simp add: except_RequestException_def error_detail_def split: sum.splits)
  from assms(1) have e: "status_code r \<noteq> 200 \<Longrightarrow> submit_status a i st =
            (Request (Put (Parcel_status (JInt i)) (JObj [(lit ''status'', JStr st)]))
               # fst (except_RequestException (error_detail r)),
             snd (except_RequestException (error_detail r)))"
    by (simp add: submit_status_def status_response_def send_def case_prod_beta)
  from assms(1) have s: "status_code r = 200 \<Longrightarrow> submit_status a i st =
            ([Request (Put (Parcel_status (JInt i)) (JObj [(lit ''status'', JStr st)])),
              St_success Status_updated], None)"
    by (simp add: handler_eval)
  from assms(2-5) have f: "fetch_api_data a' u = ([Request (Get u)], j)"
    by (simp add: fetch_api_data_success)
  show ?thesis
  proof (cases "status_code r = 200")
    case True
    with s f show ?thesis by simp
  next
    case False
    with e n f show ?thesis by simp
  qed
qed

theorem success_branches_witness:
  "submit_status (answer 200 None) 1 (lit ''Delivered'') =
       ([Request (Put (Parcel_status (JInt 1)) (JObj [(lit ''status'', JStr (lit ''Delivered''))])),
         St_success Status_updated], None)
   \<and> submit_status (answer 204 None) 1 (lit ''Delivered'') =
       ([Request (Put (Parcel_status (JInt 1)) (JObj [(lit ''status'', JStr (lit ''Delivered''))])),
         St_error (Connection_error JSONDecodeError)], None)
   \<and> St_success Status_updated
       \<notin> set (fst (submit_status (answer 204 None) 1 (lit ''Delivered'')))
   \<and> fetch_api_data (answer 203 (Some (JArr [JInt 1]))) Parcels =
       ([Request (Get Parcels)], JArr [JInt 1])"
proof -
  note t = success_branches [where a' = "answer 203 (Some (JArr [JInt 1]))" and u = Parcels
      and r' = "\<lparr> status_code = 203, body = Some (JArr [JInt 1]) \<rparr>" and j = "JArr [JInt 1]"
      and i = 1 and st = "lit ''Delivered''"]
  have a: "submit_status (answer 200 None) 1 (lit ''Delivered'') =
       ([Request (Put (Parcel_status (JInt 1)) (JObj [(lit ''status'', JStr (lit ''Delivered''))])),
         St_success Status_updated], None)
     \<and> fetch_api_data (answer 203 (Some (JArr [JInt 1]))) Parcels =
       ([Request (Get Parcels)], JArr [JInt 1])"
    using t [where a = "answer 200 None" and r = "\<lparr> status_code = 200, body = None \<rparr>"]
    by (simp add: answer_def)
  have b: "St_success Status_updated
       \<notin> set (fst (submit_status (answer 204 None) 1 (lit ''Delivered'')))
     \<and> submit_status (answer 204 None) 1 (lit ''Delivered'') =
       ([Request (Put (Parcel_status (JInt 1)) (JObj [(lit ''status'', JStr (lit ''Delivered''))])),
         St_error (Connection_error JSONDecodeError)], None)"
    using t [where a = "answer 204 None" and r = "\<lparr> status_code = 204, body = None \<rparr>"]
    by (simp add: answer_def except_RequestException_def error_detail_def response_json_def)
  from a b show ?thesis
    by simp
qed

section \<open>Runs\<close>

lemma then_run_None [simp]: "then_run (es, None) k = (es @ fst k, snd k)"
  by (simp add: then_run_def)

lemma then_run_Some [simp]: "then_run (es, Some e) k = (es, Some e)"
  by (simp add: then_run_def)


lemma fst_then_run: "snd r = None \<Longrightarrow> fst (then_run r k) = fst r @ fst k"
  by (simp add: then_run_def)


lemma draw_effects:
  "Request rq \<notin> set (fst (draw rt p d))" "St_rerun \<notin> set (fst (draw rt p d))"
  by (simp_all add: draw_def split: option.splits)



lemma fetch_no_put: "Request (Put u b) \<notin> set (fst (fetch_api_data a u'))"
  by (auto simp: fetch_api_data_def split: sum.splits)

section \<open>The update workflows\<close>

lemma update_shipment_status_ok:
  "a (Put (Shipment i) (JObj [(lit ''Status'', JStr st), (lit ''CurrentLocation'', JStr loc)])) = Inr r
   \<Longrightarrow> \<not> (400 \<le> status_code r \<and> status_code r < 600)
   \<Longrightarrow> update_shipment_status a i st loc =
        ([Request (Put (Shipment i)
            (JObj [(lit ''Status'', JStr st), (lit ''CurrentLocation'', JStr loc)]))], True)"
  by (simp add: update_shipment_status_def send_def raise_for_status_def)

lemma update_shipment_button_idle: "\<not> clicked inp \<Longrightarrow> update_shipment_button a inp = []"
  by (simp add: update_shipment_button_def)

lemma fetch_no_rerun: "St_rerun \<notin> set (fst (fetch_api_data a u))"
  by (simp add: fetch_api_data_def split: sum.splits)

text \<open>The one update call the button handler makes.\<close>

lemma update_shipment_button_put:
  "Request (Put u b) \<in> set (update_shipment_button a inp) \<Longrightarrow>
     clicked inp \<and> u = Shipment (shipment_id inp)
     \<and> b = JObj [(lit ''Status'', JStr (new_status inp)),
                 (lit ''CurrentLocation'', JStr (new_location inp))]"
  by (cases "clicked inp";
      cases "send a (Put (Shipment (shipment_id inp))
         (JObj [(lit ''Status'', JStr (new_status inp)),
                (lit ''CurrentLocation'', JStr (new_location inp))]))")
     (auto simp: update_shipment_button_def update_shipment_status_def Let_def
      split: sum.splits)

lemma update_shipment_button_ok:
  assumes "Request (Put u b) \<in> set (update_shipment_button a inp)"
      and "a (Put u b) = Inr r" and "\<not> (400 \<le> status_code r \<and> status_code r < 600)"
  shows "update_shipment_button a inp = [Request (Put u b), St_success Shipment_updated, St_rerun]"
  using update_shipment_button_put [OF assms(1)] assms(2,3)
  by (simp add: update_shipment_button_def update_shipment_status_ok)

text \<open>
  The Update Shipment tab either makes no update call and requests no rerun, or it ends,
  with no exception, in the effects of the button handler.
\<close>

lemma form_cases:
  "((\<forall>u b. Request (Put u b)
        \<notin> set (fst (then_run ([St_selectbox opts], None) (then_run (st_value cur k1)
                   (then_run (st_value cur k2) (es, None))))))
      \<and> St_rerun \<notin> set (fst (then_run ([St_selectbox opts], None) (then_run (st_value cur k1)
                   (then_run (st_value cur k2) (es, None))))))
   \<or> (\<exists>pre. then_run ([St_selectbox opts], None) (then_run (st_value cur k1)
                   (then_run (st_value cur k2) (es, None))) = (pre @ es, None)
       \<and> (\<forall>u b. Request (Put u b) \<notin> set pre) \<and> St_rerun \<notin> set pre)"
proof (cases "subscript cur k1")
  case (Inl e)
  then show ?thesis
    by (simp add: st_value_def)
next
  case a: (Inr x)
  show ?thesis
  proof (cases "subscript cur k2")
    case (Inl e)
    with a show ?thesis
      by (simp add: st_value_def)
  next
    case (Inr y)
    with a have "then_run ([St_selectbox opts], None) (then_run (st_value cur k1)
                   (then_run (st_value cur k2) (es, None)))
        = ([St_selectbox opts, St_value k1 x, St_value k2 y] @ es, None)"
      by (simp add: st_value_def)
    moreover have "(\<forall>u b. Request (Put u b) \<notin> set [St_selectbox opts, St_value k1 x, St_value k2 y])
        \<and> St_rerun \<notin> set [St_selectbox opts, St_value k1 x, St_value k2 y]"
      by simp
    ultimately show ?thesis
      by blast
  qed
qed

lemma update_tab_shape:
  "(fst (update_tab rt a inp shipments) = []
      \<or> (\<exists>opts. fst (update_tab rt a inp shipments) = [St_selectbox opts]))
   \<or> (\<exists>opts sid cur. update_tab rt a inp shipments =
         then_run ([St_selectbox opts], None) (then_run (st_value cur (lit ''Status''))
           (then_run (st_value cur (lit ''CurrentLocation''))
              (update_shipment_button a (inp\<lparr>shipment_id := sid, current_shipment := cur\<rparr>),
               None))))"
proof (cases "iterate shipments")
  case (Inl e)
  then show ?thesis
    by (simp add: update_tab_def)
next
  case rows: (Inr rows)
  show ?thesis
  proof (cases "shipment_items rt rows")
    case (Inl e)
    with rows show ?thesis
      by (simp add: update_tab_def)
  next
    case items: (Inr items)
    let ?opts = "dict_keys items"
    let ?sel = "if ?opts = [] then lit ''None''
                else ?opts ! (if selected inp < length ?opts then selected inp else 0)"
    have eq: "update_tab rt a inp shipments =
       (case dict_value items ?sel of
          Inl e \<Rightarrow> ([St_selectbox ?opts], Some e)
        | Inr sid \<Rightarrow>
           (case find (\<lambda>s. case subscript s (lit ''ShipmentID'') of
                             Inl e \<Rightarrow> False
                           | Inr i \<Rightarrow> py_eq rt i sid) rows of
              None \<Rightarrow> ([St_selectbox ?opts], None)
            | Some cur \<Rightarrow>
               if truthy cur then
                 then_run ([St_selectbox ?opts], None)
                (then_run (st_value cur (lit ''Status''))
                (then_run (st_value cur (lit ''CurrentLocation''))
                   (update_shipment_button a
                      (inp\<lparr>shipment_id := sid, current_shipment := cur\<rparr>), None)))
               else ([St_selectbox ?opts], None)))"
      by (simp only: update_tab_def rows items sum.case Let_def)
    show ?thesis
    proof (cases "dict_value items ?sel")
      case (Inl e)
      have "fst (update_tab rt a inp shipments) = [St_selectbox ?opts]"
        by (simp only: eq Inl sum.case fst_conv)
      then show ?thesis
        by blast
    next
      case sid: (Inr sid)
      show ?thesis
      proof (cases "find (\<lambda>s. case subscript s (lit ''ShipmentID'') of
                                       Inl e \<Rightarrow> False
                                     | Inr i \<Rightarrow> py_eq rt i sid) rows")
        case None
        have "fst (update_tab rt a inp shipments) = [St_selectbox ?opts]"
          by (simp only: eq sid None sum.case option.case fst_conv)
        then show ?thesis
          by blast
      next
        case (Some cur)
        show ?thesis
        proof (cases "truthy cur")
          case False
          have "fst (update_tab rt a inp shipments) = [St_selectbox ?opts]"
            by (simp only: eq sid Some False sum.case option.case if_False fst_conv)
          then show ?thesis
            by blast
        next
          case True
          have "update_tab rt a inp shipments =
            then_run ([St_selectbox ?opts], None) (then_run (st_value cur (lit ''Status''))
              (then_run (st_value cur (lit ''CurrentLocation''))
                (update_shipment_button a (inp\<lparr>shipment_id := sid, current_shipment := cur\<rparr>),
                 None)))"
            by (simp only: eq sid Some True sum.case option.case if_True)
          then show ?thesis
            by blast
        qed
      qed
    qed
  qed
qed

lemma update_tab_cases:
  "((\<forall>u b. Request (Put u b) \<notin> set (fst (update_tab rt a inp shipments)))
      \<and> St_rerun \<notin> set (fst (update_tab rt a inp shipments)))
   \<or> (\<exists>pre sid cur. update_tab rt a inp shipments =
         (pre @ update_shipment_button a (inp\<lparr>shipment_id := sid, current_shipment := cur\<rparr>), None)
       \<and> (\<forall>u b. Request (Put u b) \<notin> set pre) \<and> St_rerun \<notin> set pre)"
proof -
  consider "fst (update_tab rt a inp shipments) = []"
    | opts where "fst (update_tab rt a inp shipments) = [St_selectbox opts]"
    | opts sid cur where "update_tab rt a inp shipments =
         then_run ([St_selectbox opts], None) (then_run (st_value cur (lit ''Status''))
           (then_run (st_value cur (lit ''CurrentLocation''))
              (update_shipment_button a (inp\<lparr>shipment_id := sid, current_shipment := cur\<rparr>),
               None)))"
    using update_tab_shape [of rt a inp shipments] by blast
  then show ?thesis
  proof cases
    case 1
    then show ?thesis
      by simp
  next
    case 2
    then show ?thesis
      by simp
  next
    case 3
    from form_cases [of opts cur "lit ''Status''" "lit ''CurrentLocation''"
        "update_shipment_button a (inp\<lparr>shipment_id := sid, current_shipment := cur\<rparr>)"]
    show ?thesis
      unfolding 3 [symmetric] by blast
  qed
qed

lemma update_tab_idle:
  "\<not> clicked inp \<Longrightarrow>
     (\<forall>u b. Request (Put u b) \<notin> set (fst (update_tab rt a inp shipments)))
     \<and> St_rerun \<notin> set (fst (update_tab rt a inp shipments))"
  using update_tab_cases [of rt a inp shipments]
  by (auto simp: update_shipment_button_idle)

lemma page_tabs: "page_Shipments rt a inp = then_run (tab1 rt a inp) (tab2 rt a inp)"
  by (simp add: page_Shipments_def)

lemma tab1_effects:
  "Request (Put u b) \<notin> set (fst (tab1 rt a inp))" "St_rerun \<notin> set (fst (tab1 rt a inp))"
  by (simp_all add: tab1_def case_prod_beta fetch_no_put fetch_no_rerun draw_effects)

lemma tab1_first:
  "take 1 (fst (tab1 rt a inp)) =
     [Request (Get (Shipments (if status_filter inp = lit ''All'' then None
                               else Some (status_filter inp))))]"
  by (simp add: tab1_def case_prod_beta fetch_api_data_def split: sum.splits)

lemma tab2_cases:
  "((\<forall>u b. Request (Put u b) \<notin> set (fst (tab2 rt a inp)))
      \<and> St_rerun \<notin> set (fst (tab2 rt a inp)))
   \<or> (\<exists>pre sid cur. tab2 rt a inp =
         (pre @ update_shipment_button a (inp\<lparr>shipment_id := sid, current_shipment := cur\<rparr>), None)
       \<and> (\<forall>u b. Request (Put u b) \<notin> set pre) \<and> St_rerun \<notin> set pre)"
proof (cases "truthy (snd (fetch_api_data a (Shipments None)))")
  case False
  then have "(\<forall>u b. Request (Put u b) \<notin> set (fst (tab2 rt a inp)))
      \<and> St_rerun \<notin> set (fst (tab2 rt a inp))"
    by (simp add: tab2_def case_prod_beta fetch_no_put fetch_no_rerun)
  then show ?thesis
    by blast
next
  case True
  from update_tab_cases [of rt a inp "snd (fetch_api_data a (Shipments None))"]
  show ?thesis
  proof
    assume "(\<forall>u b. Request (Put u b)
                \<notin> set (fst (update_tab rt a inp (snd (fetch_api_data a (Shipments None))))))
          \<and> St_rerun \<notin> set (fst (update_tab rt a inp (snd (fetch_api_data a (Shipments None)))))"
    with True have "(\<forall>u b. Request (Put u b) \<notin> set (fst (tab2 rt a inp)))
        \<and> St_rerun \<notin> set (fst (tab2 rt a inp))"
      by (simp add: tab2_def case_prod_beta fetch_no_put fetch_no_rerun)
    then show ?thesis
      by blast
  next
    assume "\<exists>pre sid cur. update_tab rt a inp (snd (fetch_api_data a (Shipments None))) =
         (pre @ update_shipment_button a (inp\<lparr>shipment_id := sid, current_shipment := cur\<rparr>), None)
       \<and> (\<forall>u b. Request (Put u b) \<notin> set pre) \<and> St_rerun \<notin> set pre"
    then obtain pre sid cur where
      u: "update_tab rt a inp (snd (fetch_api_data a (Shipments None))) =
         (pre @ update_shipment_button a (inp\<lparr>shipment_id := sid, current_shipment := cur\<rparr>), None)"
      and p: "\<forall>u b. Request (Put u b) \<notin> set pre" "St_rerun \<notin> set pre"
      by blast
    from True u have "tab2 rt a inp =
       ((fst (fetch_api_data a (Shipments None)) @ pre)
        @ update_shipment_button a (inp\<lparr>shipment_id := sid, current_shipment := cur\<rparr>), None)"
      by (simp add: tab2_def case_prod_beta)
    moreover from p have "(\<forall>u b. Request (Put u b)
         \<notin> set (fst (fetch_api_data a (Shipments None)) @ pre))
       \<and> St_rerun \<notin> set (fst (fetch_api_data a (Shipments None)) @ pre)"
      by (simp add: fetch_no_put fetch_no_rerun)
    ultimately show ?thesis
      by blast
  qed
qed

lemma tab2_idle:
  "\<not> clicked inp \<Longrightarrow>
     (\<forall>u b. Request (Put u b) \<notin> set (fst (tab2 rt a inp)))
     \<and> St_rerun \<notin> set (fst (tab2 rt a inp))"
  using update_tab_idle [of inp rt a "snd (fetch_api_data a (Shipments None))"]
  by (simp add: tab2_def case_prod_beta fetch_no_put fetch_no_rerun)

lemma page_Shipments_idle:
  assumes "\<not> clicked inp"
  shows "(\<forall>u b. Request (Put u b) \<notin> set (fst (page_Shipments rt a inp)))
       \<and> St_rerun \<notin> set (fst (page_Shipments rt a inp))"
proof (cases "snd (tab1 rt a inp)")
  case None
  then have "fst (page_Shipments rt a inp) = fst (tab1 rt a inp) @ fst (tab2 rt a inp)"
    by (simp add: page_tabs fst_then_run)
  with tab2_idle [OF assms, of rt a] show ?thesis
    by (simp add: tab1_effects)
next
  case (Some e)
  then have "page_Shipments rt a inp = tab1 rt a inp"
    by (simp add: page_tabs then_run_def)
  then show ?thesis
    by (simp add: tab1_effects)
qed

lemma page_Shipments_first:
  "take 1 (fst (page_Shipments rt a inp)) =
     [Request (Get (Shipments (if status_filter inp = lit ''All'' then None
                               else Some (status_filter inp))))]"
proof -
  have "fst (tab1 rt a inp) \<noteq> []"
    using tab1_first [of rt a inp] by auto
  then obtain x xs where "fst (tab1 rt a inp) = x # xs"
    by (cases "fst (tab1 rt a inp)") simp_all
  then have "take 1 (fst (page_Shipments rt a inp)) = take 1 (fst (tab1 rt a inp))"
    by (cases "snd (tab1 rt a inp)") (simp_all add: page_tabs then_run_def)
  then show ?thesis
    by (simp only: tab1_first)
qed

lemma page_Shipments_update:
  assumes put: "Request (Put u b) \<in> set (fst (page_Shipments rt a inp))"
      and ans: "a (Put u b) = Inr r" and ok: "\<not> (400 \<le> status_code r \<and> status_code r < 600)"
  shows "\<exists>pre. page_Shipments rt a inp =
            (pre @ [Request (Put u b), St_success Shipment_updated, St_rerun], None)
          \<and> (\<forall>u' b'. Request (Put u' b') \<notin> set pre) \<and> St_rerun \<notin> set pre"
    and "clicked inp"
    and "\<exists>sid. u = Shipment sid"
    and "b = JObj [(lit ''Status'', JStr (new_status inp)),
                  (lit ''CurrentLocation'', JStr (new_location inp))]"
proof -
  have t1: "snd (tab1 rt a inp) = None"
  proof (cases "snd (tab1 rt a inp)")
    case (Some e)
    then have "page_Shipments rt a inp = tab1 rt a inp"
      by (simp add: page_tabs then_run_def)
    with put show ?thesis
      by (simp add: tab1_effects)
  qed simp
  then have page: "page_Shipments rt a inp = (fst (tab1 rt a inp) @ fst (tab2 rt a inp), snd (tab2 rt a inp))"
    by (simp add: page_tabs then_run_def)
  with put have in2: "Request (Put u b) \<in> set (fst (tab2 rt a inp))"
    by (simp add: tab1_effects)
  with tab2_cases [of rt a inp] obtain pre sid cur where
    t2: "tab2 rt a inp =
         (pre @ update_shipment_button a (inp\<lparr>shipment_id := sid, current_shipment := cur\<rparr>), None)"
    and p: "\<forall>u b. Request (Put u b) \<notin> set pre" "St_rerun \<notin> set pre"
    by blast
  from in2 t2 p have btn: "Request (Put u b)
      \<in> set (update_shipment_button a (inp\<lparr>shipment_id := sid, current_shipment := cur\<rparr>))"
    by simp
  from update_shipment_button_put [OF btn] show "clicked inp" and "\<exists>sid. u = Shipment sid"
    and "b = JObj [(lit ''Status'', JStr (new_status inp)),
                  (lit ''CurrentLocation'', JStr (new_location inp))]"
    by simp_all
  from update_shipment_button_ok [OF btn ans ok] t2 page
  have "page_Shipments rt a inp =
      ((fst (tab1 rt a inp) @ pre) @ [Request (Put u b), St_success Shipment_updated, St_rerun], None)"
    by simp
  moreover from p have "(\<forall>u' b'. Request (Put u' b') \<notin> set (fst (tab1 rt a inp) @ pre))
      \<and> St_rerun \<notin> set (fst (tab1 rt a inp) @ pre)"
    by (simp add: tab1_effects)
  ultimately show "\<exists>pre. page_Shipments rt a inp =
            (pre @ [Request (Put u b), St_success Shipment_updated, St_rerun], None)
          \<and> (\<forall>u' b'. Request (Put u' b') \<notin> set pre) \<and> St_rerun \<notin> set pre"
    by blast
qed

text \<open>Every failure of the shipment update is shown, and the function returns \<open>False\<close>.\<close>

lemma update_shipment_status_failure:
  "(a (Put (Shipment i) (JObj [(lit ''Status'', JStr st), (lit ''CurrentLocation'', JStr loc)])) = Inl m
      \<longrightarrow> update_shipment_status a i st loc =
        ([Request (Put (Shipment i)
            (JObj [(lit ''Status'', JStr st), (lit ''CurrentLocation'', JStr loc)])),
          St_error (Error_updating (TransportError m))], False))
   \<and> (a (Put (Shipment i) (JObj [(lit ''Status'', JStr st), (lit ''CurrentLocation'', JStr loc)])) = Inr r
        \<and> 400 \<le> status_code r \<and> status_code r < 600
      \<longrightarrow> update_shipment_status a i st loc =
        ([Request (Put (Shipment i)
            (JObj [(lit ''Status'', JStr st), (lit ''CurrentLocation'', JStr loc)])),
          St_error (Error_updating (HTTPError (status_code r)))], False))"
  by (simp add: update_shipment_status_def send_def raise_for_status_def)

text \<open>After a failed update the button handler has made one call, shown one error and
  requested no rerun.\<close>

lemma update_shipment_button_failure:
  "snd (update_shipment_status a (shipment_id inp) (new_status inp) (new_location inp)) = False
   \<Longrightarrow> clicked inp
   \<Longrightarrow> (\<exists>e. update_shipment_button a inp =
        [Request (Put (Shipment (shipment_id inp))
            (JObj [(lit ''Status'', JStr (new_status inp)),
                   (lit ''CurrentLocation'', JStr (new_location inp))])),
         St_error (Error_updating e)])"
  by (auto simp: update_shipment_button_def update_shipment_status_def Let_def split: sum.splits)

text \<open>
  C7, as it is written: every workflow that changes shared data, the parcel status update
  among them, asks for a refresh of the data once the service has accepted the change.
  The Update Status handler of app.py, answered with 200, shows its confirmation and
  does nothing more.
\<close>

theorem status_update_no_refresh_counterexample:
  "submit_status (answer 200 (Some (JObj []))) 1 (lit ''Delivered'') =
     ([Request (Put (Parcel_status (JInt 1)) (JObj [(lit ''status'', JStr (lit ''Delivered''))])),
       St_success Status_updated], None)
   \<and> St_rerun \<notin> set (fst (submit_status (answer 200 (Some (JObj []))) 1 (lit ''Delivered'')))"
  by (simp add: handler_eval service_eval)

text \<open>
  C7, amended: in dhl_logistics_app.py, a run of the Shipments page that makes the update
  call, the service answering it with a 2xx status, ends there with no exception, in the
  call, the confirmation and the request for a rerun, in this order; it has made no other
  update call. The call was started by a click on the button and carries the new status
  and location. The rerun of the page begins with the fetch of the list of shipments, makes
  no update call and requests no further rerun. In app.py, when the service answers the
  parcel status update with 200, the handler shows the confirmation and requests no
  refresh.
\<close>

theorem shipment_update_refreshes:
  assumes put: "Request (Put u b) \<in> set (fst (page_Shipments rt a inp))"
      and ans: "a (Put u b) = Inr r"
      and ok: "200 \<le> status_code r" "status_code r < 300"
      and parcel: "a0 (Put (Parcel_status (JInt i)) (JObj [(lit ''status'', JStr st)])) = Inr r'"
                  "status_code r' = 200"
  shows "(\<exists>pre. page_Shipments rt a inp =
             (pre @ [Request (Put u b), St_success Shipment_updated, St_rerun], None)
           \<and> (\<forall>u' b'. Request (Put u' b') \<notin> set pre) \<and> St_rerun \<notin> set pre)
       \<and> clicked inp \<and> (\<exists>sid. u = Shipment sid)
       \<and> b = JObj [(lit ''Status'', JStr (new_status inp)),
                   (lit ''CurrentLocation'', JStr (new_location inp))]
       \<and> session_Shipments rt a a' inp =
           (fst (page_Shipments rt a inp) @ fst (page_Shipments rt a' (inp\<lparr>clicked := False\<rparr>)),
            snd (page_Shipments rt a' (inp\<lparr>clicked := False\<rparr>)))
       \<and> take 1 (fst (page_Shipments rt a' (inp\<lparr>clicked := False\<rparr>))) =
           [Request (Get (Shipments (if status_filter inp = lit ''All'' then None
                                     else Some (status_filter inp))))]
       \<and> (\<forall>u' b'. Request (Put u' b')
             \<notin> set (fst (page_Shipments rt a' (inp\<lparr>clicked := False\<rparr>))))
       \<and> St_rerun \<notin> set (fst (page_Shipments rt a' (inp\<lparr>clicked := False\<rparr>)))
       \<and> submit_status a0 i st =
           ([Request (Put (Parcel_status (JInt i)) (JObj [(lit ''status'', JStr st)])),
             St_success Status_updated], None)
       \<and> St_rerun \<notin> set (fst (submit_status a0 i st))"
proof -
  from ok have ok': "\<not> (400 \<le> status_code r \<and> status_code r < 600)"
    by simp
  note run = page_Shipments_update [OF put ans ok']
  from run(1) have "St_rerun \<in> set (fst (page_Shipments rt a inp))"
    by auto
  then have s: "session_Shipments rt a a' inp =
           (fst (page_Shipments rt a inp) @ fst (page_Shipments rt a' (inp\<lparr>clicked := False\<rparr>)),
            snd (page_Shipments rt a' (inp\<lparr>clicked := False\<rparr>)))"
    by (simp add: session_Shipments_def case_prod_beta)
  have n: "(\<forall>u' b'. Request (Put u' b')
             \<notin> set (fst (page_Shipments rt a' (inp\<lparr>clicked := False\<rparr>))))
       \<and> St_rerun \<notin> set (fst (page_Shipments rt a' (inp\<lparr>clicked := False\<rparr>)))"
    by (rule page_Shipments_idle) simp
  have f: "take 1 (fst (page_Shipments rt a' (inp\<lparr>clicked := False\<rparr>))) =
           [Request (Get (Shipments (if status_filter inp = lit ''All'' then None
                                     else Some (status_filter inp))))]"
    using page_Shipments_first [of rt a' "inp\<lparr>clicked := False\<rparr>"] by simp
  from parcel have "submit_status a0 i st =
           ([Request (Put (Parcel_status (JInt i)) (JObj [(lit ''status'', JStr st)])),
             St_success Status_updated], None)"
    by (simp add: handler_eval)
  with run s n f show ?thesis
    by simp
qed

theorem shipment_update_refreshes_witness:
  "Request (Put (Shipment (JInt 7))
      (JObj [(lit ''Status'', JStr (lit ''Delivered'')),
             (lit ''CurrentLocation'', JStr (lit ''Bonn''))]))
     \<in> set (fst (page_Shipments rt0 (answer 200 (Some one_row)) input_click))
   \<and> session_Shipments rt0 (answer 200 (Some one_row)) (answer 200 (Some one_row)) input_click =
       ([Request (Get (Shipments None)), Render Shipments_table one_row,
         Request (Get (Shipments None)), St_selectbox [lit ''7 - Box''],
         St_value (lit ''Status'') (JStr (lit ''Processing'')),
         St_value (lit ''CurrentLocation'') (JStr (lit ''Kiel'')),
         Request (Put (Shipment (JInt 7))
           (JObj [(lit ''Status'', JStr (lit ''Delivered'')),
                  (lit ''CurrentLocation'', JStr (lit ''Bonn''))])),
         St_success Shipment_updated, St_rerun,
         Request (Get (Shipments None)), Render Shipments_table one_row,
         Request (Get (Shipments None)), St_selectbox [lit ''7 - Box''],
         St_value (lit ''Status'') (JStr (lit ''Processing'')),
         St_value (lit ''CurrentLocation'') (JStr (lit ''Kiel''))], None)
   \<and> submit_status (answer 200 None) 1 (lit ''Delivered'') =
       ([Request (Put (Parcel_status (JInt 1)) (JObj [(lit ''status'', JStr (lit ''Delivered''))])),
         St_success Status_updated], None)"
proof -
  have f: "fetch_api_data (answer 200 (Some one_row)) u = ([Request (Get u)], one_row)" for u
    by (simp add: fetch_api_data_success [where r = "\<lparr> status_code = 200, body = Some one_row \<rparr>"]
        answer_def)
  have t: "truthy one_row"
    by (simp add: one_row_def)
  have i: "shipment_item rt0 shipment_7 = Inr (lit ''7 - Box'', JInt 7)"
    by (simp add: shipment_item_def shipment_7_def lit_def dec.simps)
  have c: "subscript shipment_7 (lit ''ShipmentID'') = Inr (JInt 7)"
    "subscript shipment_7 (lit ''Status'') = Inr (JStr (lit ''Processing''))"
    "subscript shipment_7 (lit ''CurrentLocation'') = Inr (JStr (lit ''Kiel''))"
    "truthy shipment_7"
    by (simp_all add: shipment_7_def lit_def)
  have u: "update_tab rt0 (answer 200 (Some one_row)) inp one_row =
      ([St_selectbox [lit ''7 - Box''],
        St_value (lit ''Status'') (JStr (lit ''Processing'')),
        St_value (lit ''CurrentLocation'') (JStr (lit ''Kiel''))]
       @ update_shipment_button (answer 200 (Some one_row))
           (inp\<lparr>shipment_id := JInt 7, current_shipment := shipment_7\<rparr>), None)" for inp
    by (simp add: update_tab_def one_row_def i c dict_keys_def dict_value_def st_value_def)
  have b: "update_shipment_button (answer 200 (Some one_row))
           (input_click\<lparr>shipment_id := JInt 7, current_shipment := shipment_7\<rparr>) =
      [Request (Put (Shipment (JInt 7))
           (JObj [(lit ''Status'', JStr (lit ''Delivered'')),
                  (lit ''CurrentLocation'', JStr (lit ''Bonn''))])),
       St_success Shipment_updated, St_rerun]"
    by (simp add: update_shipment_button_def update_shipment_status_def send_def
        raise_for_status_def answer_def input_click_def)
  have p: "page_Shipments rt0 (answer 200 (Some one_row)) input_click =
       ([Request (Get (Shipments None)), Render Shipments_table one_row,
         Request (Get (Shipments None)), St_selectbox [lit ''7 - Box''],
         St_value (lit ''Status'') (JStr (lit ''Processing'')),
         St_value (lit ''CurrentLocation'') (JStr (lit ''Kiel'')),
         Request (Put (Shipment (JInt 7))
           (JObj [(lit ''Status'', JStr (lit ''Delivered'')),
                  (lit ''CurrentLocation'', JStr (lit ''Bonn''))])),
         St_success Shipment_updated, St_rerun], None)"
    by (simp add: page_Shipments_def tab1_def tab2_def f t u b draw_def)
       (simp add: rt0_def input_click_def)
  have q: "page_Shipments rt0 (answer 200 (Some one_row)) (input_click\<lparr>clicked := False\<rparr>) =
       ([Request (Get (Shipments None)), Render Shipments_table one_row,
         Request (Get (Shipments None)), St_selectbox [lit ''7 - Box''],
         St_value (lit ''Status'') (JStr (lit ''Processing'')),
         St_value (lit ''CurrentLocation'') (JStr (lit ''Kiel''))], None)"
    by (simp add: page_Shipments_def tab1_def tab2_def f t u draw_def update_shipment_button_def)
       (simp add: rt0_def input_click_def)
  have m: "Request (Put (Shipment (JInt 7))
      (JObj [(lit ''Status'', JStr (lit ''Delivered'')),
             (lit ''CurrentLocation'', JStr (lit ''Bonn''))]))
     \<in> set (fst (page_Shipments rt0 (answer 200 (Some one_row)) input_click))"
    by (simp add: p)
  have a1: "answer 200 (Some one_row) (Put (Shipment (JInt 7))
      (JObj [(lit ''Status'', JStr (lit ''Delivered'')),
             (lit ''CurrentLocation'', JStr (lit ''Bonn''))])) =
      Inr \<lparr> status_code = 200, body = Some one_row \<rparr>"
    and a2: "answer 200 None (Put (Parcel_status (JInt 1))
      (JObj [(lit ''status'', JStr (lit ''Delivered''))])) =
      Inr \<lparr> status_code = 200, body = None \<rparr>"
    by (simp_all add: answer_def)
  have k: "200 \<le> status_code \<lparr> status_code = 200, body = Some one_row \<rparr>"
    "status_code \<lparr> status_code = 200, body = Some one_row \<rparr> < 300"
    "status_code \<lparr> status_code = 200, body = None :: json option \<rparr> = 200"
    by simp_all
  note inst = shipment_update_refreshes [where rt = rt0 and a = "answer 200 (Some one_row)"
      and a' = "answer 200 (Some one_row)" and inp = input_click
      and r = "\<lparr> status_code = 200, body = Some one_row \<rparr>"
      and ?a0.0 = "answer 200 None" and i = 1 and st = "lit ''Delivered''"
      and r' = "\<lparr> status_code = 200, body = None \<rparr>", OF m a1 k(1) k(2) a2 k(3)]
  from inst
  have "session_Shipments rt0 (answer 200 (Some one_row)) (answer 200 (Some one_row)) input_click =
           (fst (page_Shipments rt0 (answer 200 (Some one_row)) input_click)
            @ fst (page_Shipments rt0 (answer 200 (Some one_row)) (input_click\<lparr>clicked := False\<rparr>)),
            snd (page_Shipments rt0 (answer 200 (Some one_row)) (input_click\<lparr>clicked := False\<rparr>)))"
    and "submit_status (answer 200 None) 1 (lit ''Delivered'') =
           ([Request (Put (Parcel_status (JInt 1))
               (JObj [(lit ''status'', JStr (lit ''Delivered''))])),
             St_success Status_updated], None)"
    by blast+
  with m show ?thesis
    by (simp add: p q)
qed

subsection \<open>Failed calls\<close>

text \<open>
  What the Update Status handler of app.py shows for a failed call: the transport failure
  and the body that is not JSON as a connection error, a JSON object as the error with its
  "detail" or with "Unknown error". One call is made each time.
\<close>

lemma submit_status_failure:
  "(a (Put (Parcel_status (JInt i)) (JObj [(lit ''status'', JStr st)])) = Inl m \<longrightarrow>
      submit_status a i st =
        ([Request (Put (Parcel_status (JInt i)) (JObj [(lit ''status'', JStr st)])),
          St_error (Connection_error (TransportError m))], None))
   \<and> (a (Put (Parcel_status (JInt i)) (JObj [(lit ''status'', JStr st)])) = Inr r
        \<and> status_code r \<noteq> 200 \<and> body r = Some (JObj kv) \<longrightarrow>
      submit_status a i st =
        ([Request (Put (Parcel_status (JInt i)) (JObj [(lit ''status'', JStr st)])),
          St_error (Error_detail (case map_of kv (lit ''detail'') of
                                    None \<Rightarrow> JStr (lit ''Unknown error'') | Some d \<Rightarrow> d))], None))
   \<and> (a (Put (Parcel_status (JInt i)) (JObj [(lit ''status'', JStr st)])) = Inr r
        \<and> status_code r \<noteq> 200 \<and> body r = None \<longrightarrow>
      submit_status a i st =
        ([Request (Put (Parcel_status (JInt i)) (JObj [(lit ''status'', JStr st)])),
          St_error (Connection_error JSONDecodeError)], None))"
  by (simp add: handler_eval)

text \<open>
  C8. Every failed call is to end in a message of the handler. The Update Status handler
  of app.py, answered with status 500 and a JSON body that is not an object, ends in an
  \<open>AttributeError\<close> that nothing catches, its message never built. The Update Shipment
  handler of dhl_logistics_app.py shows its error for the same answer.
\<close>

theorem update_error_body_not_object:
  "submit_status (answer 500 (Some (JArr []))) 1 (lit ''Delivered'') =
     ([Request (Put (Parcel_status (JInt 1)) (JObj [(lit ''status'', JStr (lit ''Delivered''))]))],
      Some AttributeError)
   \<and> update_shipment_button (answer 500 (Some (JArr []))) input_click =
     [Request (Put (Shipment (JInt 7))
        (JObj [(lit ''Status'', JStr (lit ''Delivered'')),
               (lit ''CurrentLocation'', JStr (lit ''Bonn''))])),
      St_error (Error_updating (HTTPError 500))]"
  by (simp add: handler_eval service_eval update_shipment_button_def update_shipment_status_def)

section \<open>The pages and their fetches\<close>













text \<open>
  A summary that counts as true and lacks a key of the cards ends the run before any chart
  is fetched.
\<close>

lemma dashboard_summary_key_missing:
  "page_Dashboard rt0 (answer 200 (Some (JArr [JInt 1]))) =
     ([Request (Get Dashboard_summary)], Some TypeError)"
  by (simp add: page_Dashboard_def fetch_api_data_def send_def response_json_def
      raise_for_status_def answer_def st_value_def)



text \<open>What a fetch returns depends on the answer to its own request alone.\<close>

lemma fetch_api_data_own_answer:
  "a (Get u) = b (Get u) \<Longrightarrow> fetch_api_data a u = fetch_api_data b u"
  by (simp add: fetch_api_data_def send_def)

text \<open>
  C10. A list fetch answered with a 2xx status and the empty list returns a value that
  counts as false, as the \<open>None\<close> of a failed fetch does: the Parcels page and the
  Customers page then draw nothing, as they draw nothing after a failed fetch. The two
  runs differ in the error message, which the failed fetch itself has shown.
\<close>

theorem empty_list_skips_section:
  assumes "a (Get Parcels) = Inr r" and "a (Get Customers) = Inr r"
      and "200 \<le> status_code r" and "status_code r < 300" and "body r = Some (JArr [])"
      and "fetch_api_data b Parcels = ([Request (Get Parcels), St_error (Error_fetching e)], JNull)"
      and "fetch_api_data b Customers =
             ([Request (Get Customers), St_error (Error_fetching e')], JNull)"
  shows "page_Parcels a = [Request (Get Parcels)]
       \<and> page_Parcels b = [Request (Get Parcels), St_error (Error_fetching e)]
       \<and> page_Customers a sel = [Request (Get Customers)]
       \<and> page_Customers b sel = [Request (Get Customers), St_error (Error_fetching e')]
       \<and> truthy (snd (fetch_api_data a Parcels)) = truthy (snd (fetch_api_data b Parcels))
       \<and> truthy (snd (fetch_api_data a Customers)) = truthy (snd (fetch_api_data b Customers))"
proof -
  from assms(3,4) have "\<not> (400 \<le> status_code r \<and> status_code r < 600)"
    by simp
  with assms(1,2,5) have "fetch_api_data a Parcels = ([Request (Get Parcels)], JArr [])"
    and "fetch_api_data a Customers = ([Request (Get Customers)], JArr [])"
    by (simp_all add: fetch_api_data_success)
  with assms(6,7) show ?thesis
    by (simp add: page_Parcels_def page_Customers_def)
qed

theorem empty_list_skips_section_witness:
  "answer 200 (Some (JArr [])) (Get Parcels) = Inr \<lparr> status_code = 200, body = Some (JArr []) \<rparr>
   \<and> fetch_api_data refused Parcels =
       ([Request (Get Parcels), St_error (Error_fetching (TransportError (lit ''refused'')))], JNull)
   \<and> page_Parcels (answer 200 (Some (JArr []))) = [Request (Get Parcels)]
   \<and> page_Parcels refused =
       [Request (Get Parcels), St_error (Error_fetching (TransportError (lit ''refused'')))]
   \<and> page_Customers (answer 200 (Some (JArr []))) (JInt 1) = [Request (Get Customers)]
   \<and> page_Customers refused (JInt 1) =
       [Request (Get Customers), St_error (Error_fetching (TransportError (lit ''refused'')))]"
proof -
  have f: "fetch_api_data refused Parcels =
       ([Request (Get Parcels), St_error (Error_fetching (TransportError (lit ''refused'')))], JNull)"
    "fetch_api_data refused Customers =
       ([Request (Get Customers), St_error (Error_fetching (TransportError (lit ''refused'')))], JNull)"
    by (simp_all add: fetch_api_data_def send_def refused_def)
  have "page_Parcels (answer 200 (Some (JArr []))) = [Request (Get Parcels)]
       \<and> page_Parcels refused =
           [Request (Get Parcels), St_error (Error_fetching (TransportError (lit ''refused'')))]
       \<and> page_Customers (answer 200 (Some (JArr []))) (JInt 1) = [Request (Get Customers)]
       \<and> page_Customers refused (JInt 1) =
           [Request (Get Customers), St_error (Error_fetching (TransportError (lit ''refused'')))]
       \<and> truthy (snd (fetch_api_data (answer 200 (Some (JArr []))) Parcels))
           = truthy (snd (fetch_api_data refused Parcels))
       \<and> truthy (snd (fetch_api_data (answer 200 (Some (JArr []))) Customers))
           = truthy (snd (fetch_api_data refused Customers))"
    by (rule empty_list_skips_section [where r = "\<lparr> status_code = 200, body = Some (JArr []) \<rparr>"])
       (simp_all add: answer_def f)
  with f show ?thesis
    by (simp add: answer_def)
qed

end
